theory Spec2Isabelle
  imports Main
begin

section \<open>Python values the table code works on\<close>

text \<open>
  The exceptions the modelled methods raise. A method that mutates the table returns the
  table as it stands when the method ends, together with the exception it ended with
  (if any): a Python exception does not undo the assignments made before it.
\<close>

datatype error = TypeError | IndexError | KeyError | ValueError | ZeroDivisionError

text \<open>
  A row or column key as the methods dispatch on it with \<^verbatim>\<open>isinstance\<close>: an int,
  a str, a slice (start, stop, step, each possibly None), or a value of another type.
\<close>

datatype key = KInt int | KStr string | KSlice "int option" "int option" "int option" | KOther

datatype alignment = ALIGN_LEFT | ALIGN_CENTER | ALIGN_RIGHT

subsection \<open>Python list primitives\<close>

text \<open>\<^verbatim>\<open>xs[i]\<close> for an int: negative indices count from the end, out of range raises.\<close>

definition py_index :: "nat \<Rightarrow> int \<Rightarrow> error + nat" where
  "py_index n i =
     (let j = (if i < 0 then i + int n else i)
      in if 0 \<le> j \<and> j < int n then Inr (nat j) else Inl IndexError)"

text \<open>\<^verbatim>\<open>list.insert(i, x)\<close>: the index is clamped into the list, it never raises.\<close>

definition list_insert :: "int \<Rightarrow> 'a \<Rightarrow> 'a list \<Rightarrow> 'a list" where
  "list_insert i x xs =
     (let n = int (length xs);
          j = (if i < 0 then max 0 (i + n) else min i n)
      in take (nat j) xs @ x # drop (nat j) xs)"

text \<open>\<^verbatim>\<open>list.pop(i)\<close>: the removed element and the rest, IndexError out of range.\<close>

definition list_pop :: "int \<Rightarrow> 'a list \<Rightarrow> error + ('a \<times> 'a list)" where
  "list_pop i xs =
     (case py_index (length xs) i of
        Inl e \<Rightarrow> Inl e
      | Inr j \<Rightarrow> Inr (xs ! j, take j xs @ drop (Suc j) xs))"

text \<open>
  \<^verbatim>\<open>slice(start, stop, step).indices(n)\<close> followed by \<^verbatim>\<open>range\<close>: the indices a slice
  selects in a list of length \<open>n\<close>. A step of 0 raises ValueError.
\<close>

definition slice_bound :: "int \<Rightarrow> int \<Rightarrow> int \<Rightarrow> int option \<Rightarrow> int \<Rightarrow> int" where
  "slice_bound n lower upper b dflt =
     (case b of
        None \<Rightarrow> dflt
      | Some v \<Rightarrow> if v < 0 then max (v + n) lower else min v upper)"

definition py_range :: "int \<Rightarrow> int \<Rightarrow> int \<Rightarrow> int list" where
  "py_range start stop step =
     (if step > 0 then
        (if start < stop
         then map (\<lambda>k. start + int k * step) [0 ..< nat ((stop - start - 1) div step + 1)]
         else [])
      else
        (if start > stop
         then map (\<lambda>k. start + int k * step) [0 ..< nat ((start - stop - 1) div (- step) + 1)]
         else []))"

definition slice_indices :: "nat \<Rightarrow> int option \<Rightarrow> int option \<Rightarrow> int option \<Rightarrow> error + int list" where
  "slice_indices len start stop step =
     (let n = int len;
          st = (case step of None \<Rightarrow> 1 | Some s \<Rightarrow> s)
      in if st = 0 then Inl ValueError
         else
           (let lower = (if st < 0 then - 1 else 0);
                upper = (if st < 0 then n - 1 else n);
                a = slice_bound n lower upper start (if st < 0 then upper else lower);
                b = slice_bound n lower upper stop (if st < 0 then lower else upper)
            in Inr (py_range a b st)))"

text \<open>\<^verbatim>\<open>del xs[slice]\<close>: the elements at the selected indices are removed.\<close>

definition del_indices :: "int list \<Rightarrow> 'a list \<Rightarrow> 'a list" where
  "del_indices js xs =
     map snd (filter (\<lambda>(i, x). int i \<notin> set js) (zip [0 ..< length xs] xs))"

text \<open>\<^verbatim>\<open>del xs[key]\<close> on a plain list: an int or a slice; any other key is a TypeError.\<close>

fun list_delitem :: "key \<Rightarrow> 'a list \<Rightarrow> error + 'a list" where
  "list_delitem (KInt i) xs =
     (case py_index (length xs) i of
        Inl e \<Rightarrow> Inl e
      | Inr j \<Rightarrow> Inr (take j xs @ drop (Suc j) xs))"
| "list_delitem (KSlice a b c) xs =
     (case slice_indices (length xs) a b c of
        Inl e \<Rightarrow> Inl e
      | Inr js \<Rightarrow> Inr (del_indices js xs))"
| "list_delitem (KStr s) xs = Inl TypeError"
| "list_delitem KOther xs = Inl TypeError"

subsection \<open>The list wrappers of base.py\<close>

text \<open>
  Modelled from the spec: base.py (BTBaseList, BTBaseRow, BTBaseColumn) and meta.py are
  not among the sources; what follows is what the methods of beautifultable.py call in
  them. \<open>4.4\<close>: "an input key of kind {integer index, string header, range/slice} is
  normalized to an index or index-range; string lookup resolves to the first matching
  header occurrence; any other key kind fails with a type error", and a header that is
  absent is the error HeaderNotFound (KeyError in the docstrings of beautifultable.py).
  \<^verbatim>\<open>_insert\<close>, \<^verbatim>\<open>_pop\<close> and \<^verbatim>\<open>__delitem__\<close> follow the rules of Python lists
  ("List index rules apply", "Normal list rules apply" in the docstrings), on the
  canonical key.
\<close>

fun header_index :: "string option list \<Rightarrow> string \<Rightarrow> error + nat" where
  "header_index [] s = Inl KeyError"
| "header_index (h # hs) s =
     (if h = Some s then Inr 0
      else (case header_index hs s of Inl e \<Rightarrow> Inl e | Inr i \<Rightarrow> Inr (Suc i)))"

text \<open>\<^verbatim>\<open>BTRows._canonical_key\<close> and \<^verbatim>\<open>BTColumns._canonical_key\<close> (the same code twice).\<close>

fun canonical_key :: "string option list \<Rightarrow> key \<Rightarrow> error + key" where
  "canonical_key hdr (KInt i) = Inr (KInt i)"
| "canonical_key hdr (KSlice a b c) = Inr (KSlice a b c)"
| "canonical_key hdr (KStr s) =
     (case header_index hdr s of Inl e \<Rightarrow> Inl e | Inr i \<Rightarrow> Inr (KInt (int i)))"
| "canonical_key hdr KOther = Inl TypeError"

definition base_delitem :: "string option list \<Rightarrow> key \<Rightarrow> 'a list \<Rightarrow> error + 'a list" where
  "base_delitem hdr k xs =
     (case canonical_key hdr k of Inl e \<Rightarrow> Inl e | Inr k' \<Rightarrow> list_delitem k' xs)"

definition base_pop :: "string option list \<Rightarrow> key \<Rightarrow> 'a list \<Rightarrow> error + ('a \<times> 'a list)" where
  "base_pop hdr k xs =
     (case canonical_key hdr k of
        Inl e \<Rightarrow> Inl e
      | Inr (KInt i) \<Rightarrow> list_pop i xs
      | Inr _ \<Rightarrow> Inl TypeError)"

section \<open>The table\<close>

datatype width_exceed_policy = WEP_WRAP | WEP_STRIP | WEP_ELLIPSIS

text \<open>
  The characters of the horizontal lines: the attributes \<^verbatim>\<open>top_border_char\<close> \<open>...\<close>
  \<^verbatim>\<open>intersect_bottom_right\<close> of \<^verbatim>\<open>BeautifulTable\<close>, which \<^verbatim>\<open>set_style\<close> copies
  from a style template.
\<close>

record style =
  top_border_char :: string
  bottom_border_char :: string
  header_separator_char :: string
  row_separator_char :: string
  intersect_top_left :: string
  intersect_top_mid :: string
  intersect_top_right :: string
  intersect_header_left :: string
  intersect_header_mid :: string
  intersect_header_right :: string
  intersect_row_left :: string
  intersect_row_mid :: string
  intersect_row_right :: string
  intersect_bottom_left :: string
  intersect_bottom_mid :: string
  intersect_bottom_right :: string

text \<open>
  The attributes of \<^verbatim>\<open>BeautifulTable\<close>, \<^verbatim>\<open>BTRows\<close> and \<^verbatim>\<open>BTColumns\<close> that the modelled
  methods read or write. A cell is any Python value; \<open>None\<close> is Python's None.
  \<open>maxwidth'\<close> is the attribute \<^verbatim>\<open>_maxwidth\<close>, \<open>pad_character\<close> is
  \<^verbatim>\<open>columns._pad_character\<close>, \<open>header_alignment\<close> is \<^verbatim>\<open>columns.header.alignment\<close>
  and \<open>lines\<close> holds the characters of the horizontal lines.
\<close>

record 'a table =
  ncol :: nat
  data :: "'a option list list"
  rows_header :: "string option list"
  columns_header :: "string option list"
  columns_alignment :: "alignment list"
  columns_width :: "int list"
  columns_padding_left :: "int list"
  columns_padding_right :: "int list"
  default_alignment :: alignment
  default_padding :: int
  maxwidth' :: int
  left_border_char :: string
  right_border_char :: string
  column_separator_char :: string
  lines :: style
  width_exceed_policy :: width_exceed_policy
  pad_character :: string
  header_alignment :: "alignment list option"
  serialno :: bool
  serialno_header :: string

text \<open>
  Modelled from the spec: the row constructor \<^verbatim>\<open>BTRowData(table, row)\<close> is in base.py.
  \<open>3\<close>: "len(row) == columnCount for every row, at all times"; the docstring of
  \<^verbatim>\<open>BTRows.insert\<close>: ValueError "if size of row is inconsistent with the current
  number of columns". None of the properties below depends on what the constructor
  refuses.
\<close>

definition BTRowData :: "'a table \<Rightarrow> 'a option list \<Rightarrow> error + 'a option list" where
  "BTRowData t row = (if length row = ncol t then Inr row else Inl ValueError)"

text \<open>
  \<^verbatim>\<open>BTColumns._reset_state(ncol)\<close>. The product \<^verbatim>\<open>BTRowData(table, [None]*ncol) * n\<close> is
  read as \<open>n\<close> rows of \<open>ncol\<close> cells None each.
\<close>

definition columns_reset_state :: "'a table \<Rightarrow> nat \<Rightarrow> 'a table" where
  "columns_reset_state t n =
     t\<lparr>ncol := n,
       columns_header := replicate n None,
       columns_alignment := replicate n (default_alignment t),
       columns_width := replicate n 0,
       columns_padding_left := replicate n (default_padding t),
       columns_padding_right := replicate n (default_padding t),
       data := replicate (length (data t)) (replicate n None)\<rparr>"

subsection \<open>Rows\<close>

text \<open>
  \<^verbatim>\<open>BTRows.__delitem__\<close>: the rows go through the canonical key, the row headers
  through \<^verbatim>\<open>BTRowHeader.__delitem__\<close>, which deletes from the plain list with the key
  as given.
\<close>

definition rows_delitem :: "'a table \<Rightarrow> key \<Rightarrow> error option \<times> 'a table" where
  "rows_delitem t k =
     (case k of
        KOther \<Rightarrow> (Some TypeError, t)
      | _ \<Rightarrow>
         (case base_delitem (rows_header t) k (data t) of
            Inl e \<Rightarrow> (Some e, t)
          | Inr d \<Rightarrow>
             (case list_delitem k (rows_header t) of
                Inl e \<Rightarrow> (Some e, t\<lparr>data := d\<rparr>)
              | Inr h \<Rightarrow> (None, t\<lparr>data := d, rows_header := h\<rparr>))))"

text \<open>\<^verbatim>\<open>BTRows.pop(index)\<close>: the result is the popped row.\<close>

definition rows_pop :: "'a table \<Rightarrow> key \<Rightarrow> (error + 'a option list) \<times> 'a table" where
  "rows_pop t index =
     (case index of
        KSlice a b c \<Rightarrow> (Inl TypeError, t)
      | KOther \<Rightarrow> (Inl TypeError, t)
      | _ \<Rightarrow>
         if length (data t) = 0 then (Inl IndexError, t)
         else
           (case base_pop (rows_header t) index (data t) of
              Inl e \<Rightarrow> (Inl e, t)
            | Inr (res, d) \<Rightarrow>
               (case base_pop (rows_header t) index (rows_header t) of
                  Inl e \<Rightarrow> (Inl e, t\<lparr>data := d\<rparr>)
                | Inr (x, h) \<Rightarrow> (Inr res, t\<lparr>data := d, rows_header := h\<rparr>))))"

text \<open>
  \<^verbatim>\<open>BTRows.insert(index, row, header)\<close>: the header is inserted before the row is
  built, so it stays when the row is refused.
\<close>

definition rows_insert ::
  "'a table \<Rightarrow> int \<Rightarrow> 'a option list \<Rightarrow> string option \<Rightarrow> error option \<times> 'a table" where
  "rows_insert t index row header =
     (let t1 = (if ncol t = 0 then columns_reset_state t (length row) else t);
          t2 = t1\<lparr>rows_header := list_insert index header (rows_header t1)\<rparr>
      in case BTRowData t2 row of
           Inl e \<Rightarrow> (Some e, t2)
         | Inr r \<Rightarrow> (None, t2\<lparr>data := list_insert index r (data t2)\<rparr>))"

text \<open>\<^verbatim>\<open>BTRows.append(row, header)\<close>: \<^verbatim>\<open>self.insert(len(self), row)\<close>.\<close>

definition rows_append ::
  "'a table \<Rightarrow> 'a option list \<Rightarrow> string option \<Rightarrow> error option \<times> 'a table" where
  "rows_append t row header = rows_insert t (int (length (data t))) row None"

subsection \<open>Columns\<close>

text \<open>
  A method body is a sequence of statements, each of which may raise: the next statement
  runs on the table the previous one left, and an exception ends the method there.
\<close>

definition bind_err ::
  "error option \<times> 's \<Rightarrow> ('s \<Rightarrow> error option \<times> 's) \<Rightarrow> error option \<times> 's" where
  "bind_err r f = (case r of (Some e, s) \<Rightarrow> (Some e, s) | (None, s) \<Rightarrow> f s)"

text \<open>
  \<^verbatim>\<open>for row in rows: del row[key]\<close>: the rows before the one that raises stay changed.
\<close>

fun each_row :: "('r \<Rightarrow> error + 'r) \<Rightarrow> 'r list \<Rightarrow> error option \<times> 'r list" where
  "each_row f [] = (None, [])"
| "each_row f (r # rs) =
     (case f r of
        Inl e \<Rightarrow> (Some e, r # rs)
      | Inr r' \<Rightarrow> (case each_row f rs of (e, rs') \<Rightarrow> (e, r' # rs')))"

definition del_alignment :: "key \<Rightarrow> 'a table \<Rightarrow> error option \<times> 'a table" where
  "del_alignment k t =
     (case base_delitem (columns_header t) k (columns_alignment t) of
        Inl e \<Rightarrow> (Some e, t)
      | Inr v \<Rightarrow> (None, t\<lparr>columns_alignment := v\<rparr>))"

definition del_width :: "key \<Rightarrow> 'a table \<Rightarrow> error option \<times> 'a table" where
  "del_width k t =
     (case base_delitem (columns_header t) k (columns_width t) of
        Inl e \<Rightarrow> (Some e, t)
      | Inr v \<Rightarrow> (None, t\<lparr>columns_width := v\<rparr>))"

definition del_padding_left :: "key \<Rightarrow> 'a table \<Rightarrow> error option \<times> 'a table" where
  "del_padding_left k t =
     (case base_delitem (columns_header t) k (columns_padding_left t) of
        Inl e \<Rightarrow> (Some e, t)
      | Inr v \<Rightarrow> (None, t\<lparr>columns_padding_left := v\<rparr>))"

definition del_padding_right :: "key \<Rightarrow> 'a table \<Rightarrow> error option \<times> 'a table" where
  "del_padding_right k t =
     (case base_delitem (columns_header t) k (columns_padding_right t) of
        Inl e \<Rightarrow> (Some e, t)
      | Inr v \<Rightarrow> (None, t\<lparr>columns_padding_right := v\<rparr>))"

definition del_cells :: "key \<Rightarrow> 'a table \<Rightarrow> error option \<times> 'a table" where
  "del_cells k t =
     (case each_row (base_delitem (columns_header t) k) (data t) of
        (e, d) \<Rightarrow> (e, t\<lparr>data := d\<rparr>))"

definition del_header :: "key \<Rightarrow> 'a table \<Rightarrow> error option \<times> 'a table" where
  "del_header k t =
     (case base_delitem (columns_header t) k (columns_header t) of
        Inl e \<Rightarrow> (Some e, t)
      | Inr v \<Rightarrow> (None, t\<lparr>columns_header := v\<rparr>))"

text \<open>
  The end of both \<^verbatim>\<open>BTColumns.__delitem__\<close> and \<^verbatim>\<open>BTColumns.pop\<close>:
  \<^verbatim>\<open>_ncol = len(self.header)\<close>, and \<^verbatim>\<open>del self._table.rows[:]\<close> when no column is left.
\<close>

definition sync_ncol :: "'a table \<Rightarrow> error option \<times> 'a table" where
  "sync_ncol t =
     (let t' = t\<lparr>ncol := length (columns_header t)\<rparr>
      in if ncol t' = 0 then rows_delitem t' (KSlice None None None) else (None, t'))"

text \<open>\<^verbatim>\<open>BTColumns.__delitem__(key)\<close>.\<close>

definition columns_delitem :: "'a table \<Rightarrow> key \<Rightarrow> error option \<times> 'a table" where
  "columns_delitem t k =
     (case k of
        KOther \<Rightarrow> (Some TypeError, t)
      | _ \<Rightarrow>
         bind_err (del_alignment k t) (\<lambda>t.
         bind_err (del_width k t) (\<lambda>t.
         bind_err (del_padding_left k t) (\<lambda>t.
         bind_err (del_padding_right k t) (\<lambda>t.
         bind_err (del_cells k t) (\<lambda>t.
         bind_err (del_header k t) sync_ncol))))))"

text \<open>
  \<^verbatim>\<open>for row in rows: res.append(row._pop(index))\<close>: the popped cells so far, and the
  rows, those before the one that raises changed.
\<close>

fun pop_rows ::
  "('r \<Rightarrow> error + ('c \<times> 'r)) \<Rightarrow> 'r list \<Rightarrow> error option \<times> 'c list \<times> 'r list" where
  "pop_rows f [] = (None, [], [])"
| "pop_rows f (r # rs) =
     (case f r of
        Inl e \<Rightarrow> (Some e, [], r # rs)
      | Inr (c, r') \<Rightarrow> (case pop_rows f rs of (e, cs, rs') \<Rightarrow> (e, c # cs, r' # rs')))"

definition pop_alignment :: "key \<Rightarrow> 'a table \<Rightarrow> error option \<times> 'a table" where
  "pop_alignment k t =
     (case base_pop (columns_header t) k (columns_alignment t) of
        Inl e \<Rightarrow> (Some e, t)
      | Inr (x, v) \<Rightarrow> (None, t\<lparr>columns_alignment := v\<rparr>))"

definition pop_width :: "key \<Rightarrow> 'a table \<Rightarrow> error option \<times> 'a table" where
  "pop_width k t =
     (case base_pop (columns_header t) k (columns_width t) of
        Inl e \<Rightarrow> (Some e, t)
      | Inr (x, v) \<Rightarrow> (None, t\<lparr>columns_width := v\<rparr>))"

definition pop_padding_left :: "key \<Rightarrow> 'a table \<Rightarrow> error option \<times> 'a table" where
  "pop_padding_left k t =
     (case base_pop (columns_header t) k (columns_padding_left t) of
        Inl e \<Rightarrow> (Some e, t)
      | Inr (x, v) \<Rightarrow> (None, t\<lparr>columns_padding_left := v\<rparr>))"

definition pop_padding_right :: "key \<Rightarrow> 'a table \<Rightarrow> error option \<times> 'a table" where
  "pop_padding_right k t =
     (case base_pop (columns_header t) k (columns_padding_right t) of
        Inl e \<Rightarrow> (Some e, t)
      | Inr (x, v) \<Rightarrow> (None, t\<lparr>columns_padding_right := v\<rparr>))"

definition pop_header :: "key \<Rightarrow> 'a table \<Rightarrow> error option \<times> 'a table" where
  "pop_header k t =
     (case base_pop (columns_header t) k (columns_header t) of
        Inl e \<Rightarrow> (Some e, t)
      | Inr (x, v) \<Rightarrow> (None, t\<lparr>columns_header := v\<rparr>))"

text \<open>\<^verbatim>\<open>BTColumns.pop(index)\<close>: the result is the list of the popped cells.\<close>

definition columns_pop :: "'a table \<Rightarrow> key \<Rightarrow> (error + 'a option list) \<times> 'a table" where
  "columns_pop t index =
     (case index of
        KSlice a b c \<Rightarrow> (Inl TypeError, t)
      | KOther \<Rightarrow> (Inl TypeError, t)
      | _ \<Rightarrow>
         if ncol t = 0 then (Inl IndexError, t)
         else
           (case pop_rows (base_pop (columns_header t) index) (data t) of
              (e, res, d) \<Rightarrow>
                (case bind_err (e, t\<lparr>data := d\<rparr>) (\<lambda>t.
                      bind_err (pop_alignment index t) (\<lambda>t.
                      bind_err (pop_width index t) (\<lambda>t.
                      bind_err (pop_padding_left index t) (\<lambda>t.
                      bind_err (pop_padding_right index t) (\<lambda>t.
                      bind_err (pop_header index t) sync_ncol))))) of
                   (Some e', t') \<Rightarrow> (Inl e', t')
                 | (None, t') \<Rightarrow> (Inr res, t'))))"

text \<open>
  \<^verbatim>\<open>for row, new_item in zip(rows, column): row._insert(index, new_item)\<close>, counting
  the pairs in \<^verbatim>\<open>column_length\<close>.
\<close>

fun insert_cells :: "int \<Rightarrow> 'c list list \<Rightarrow> 'c list \<Rightarrow> 'c list list \<times> nat" where
  "insert_cells index (r # rs) (x # xs) =
     (case insert_cells index rs xs of (rs', n) \<Rightarrow> (list_insert index x r # rs', Suc n))"
| "insert_cells index rs xs = (rs, 0)"

text \<open>\<^verbatim>\<open>self._table.rows[j]._pop(index)\<close>, for an int \<open>index\<close> (its own canonical key).\<close>

definition pop_cell :: "int \<Rightarrow> nat \<Rightarrow> 'c list list \<Rightarrow> error + 'c list list" where
  "pop_cell index j rows =
     (if j < length rows then
        (case list_pop index (rows ! j) of
           Inl e \<Rightarrow> Inl e
         | Inr (x, r) \<Rightarrow> Inr (rows[j := r]))
      else Inl IndexError)"

text \<open>
  The roll-back loop of \<^verbatim>\<open>BTColumns.insert\<close>:
  \<^verbatim>\<open>for j in range(column_length, -1, -1): self._table.rows[j]._pop(index)\<close>,
  that is \<open>j = column_length, column_length - 1, ..., 0\<close>.
\<close>

fun rollback :: "int \<Rightarrow> nat \<Rightarrow> 'c list list \<Rightarrow> error option \<times> 'c list list" where
  "rollback index 0 rows =
     (case pop_cell index 0 rows of Inl e \<Rightarrow> (Some e, rows) | Inr rows' \<Rightarrow> (None, rows'))"
| "rollback index (Suc j) rows =
     (case pop_cell index (Suc j) rows of
        Inl e \<Rightarrow> (Some e, rows)
      | Inr rows' \<Rightarrow> rollback index j rows')"

text \<open>\<^verbatim>\<open>[BTRowData(self._table, [i]) for i in column]\<close>.\<close>

fun build_rows :: "'a table \<Rightarrow> 'a option list \<Rightarrow> error + 'a option list list" where
  "build_rows t [] = Inr []"
| "build_rows t (i # column) =
     (case BTRowData t [i] of
        Inl e \<Rightarrow> Inl e
      | Inr r \<Rightarrow> (case build_rows t column of Inl e \<Rightarrow> Inl e | Inr rs \<Rightarrow> Inr (r # rs)))"

text \<open>
  \<^verbatim>\<open>BTColumns.insert(index, column, header)\<close>. \<open>header = None\<close> is Python's None, the
  default, which is not a str.
\<close>

definition columns_insert ::
  "'a table \<Rightarrow> int \<Rightarrow> 'a option list \<Rightarrow> string option \<Rightarrow> error option \<times> 'a table" where
  "columns_insert t index column header =
     (if ncol t = 0 then
        (let t1 = t\<lparr>columns_header := [header]\<rparr>
         in case build_rows t1 column of
              Inl e \<Rightarrow> (Some e, t1)
            | Inr d \<Rightarrow> (None, t1\<lparr>data := d\<rparr>))
      else if header = None then (Some TypeError, t)
      else
        (case insert_cells index (data t) column of
           (d, column_length) \<Rightarrow>
             (let t1 = t\<lparr>data := d\<rparr>
              in if column_length = length (data t1) then
                   (None,
                    t1\<lparr>ncol := ncol t1 + 1,
                       columns_header := list_insert index header (columns_header t1),
                       columns_width := list_insert index 0 (columns_width t1),
                       columns_alignment :=
                         list_insert index (default_alignment t1) (columns_alignment t1),
                       columns_padding_left :=
                         list_insert index (default_padding t1) (columns_padding_left t1),
                       columns_padding_right :=
                         list_insert index (default_padding t1) (columns_padding_right t1)\<rparr>)
                 else
                   (case rollback index column_length (data t1) of
                      (Some e, d') \<Rightarrow> (Some e, t1\<lparr>data := d'\<rparr>)
                    | (None, d') \<Rightarrow> (Some ValueError, t1\<lparr>data := d'\<rparr>)))))"

text \<open>\<^verbatim>\<open>BTColumns.append(column, header)\<close>.\<close>

definition columns_append ::
  "'a table \<Rightarrow> 'a option list \<Rightarrow> string option \<Rightarrow> error option \<times> 'a table" where
  "columns_append t column header = columns_insert t (int (ncol t)) column header"

text \<open>
  The invariant of \<open>3\<close>: every row has \<open>ncol\<close> cells, every column-metadata list has
  \<open>ncol\<close> entries, and there is one row header per row.
\<close>

definition wf_table :: "'a table \<Rightarrow> bool" where
  "wf_table t \<longleftrightarrow>
     length (columns_header t) = ncol t \<and>
     length (columns_alignment t) = ncol t \<and>
     length (columns_width t) = ncol t \<and>
     length (columns_padding_left t) = ncol t \<and>
     length (columns_padding_right t) = ncol t \<and>
     length (rows_header t) = length (data t) \<and>
     list_all (\<lambda>r. length r = ncol t) (data t)"

text \<open>The key types \<^verbatim>\<open>pop\<close> documents for its index: "index : int, str".\<close>

definition int_or_str :: "key \<Rightarrow> bool" where
  "int_or_str k = (case k of KInt i \<Rightarrow> True | KStr s \<Rightarrow> True | _ \<Rightarrow> False)"

subsection \<open>Example tables\<close>

text \<open>
  The lines of the table in the docstring of the module: \<open>-\<close> with \<open>+\<close> at the
  intersections.
\<close>

definition grid_lines :: style where
  "grid_lines =
     \<lparr>top_border_char = ''-'', bottom_border_char = ''-'',
      header_separator_char = ''-'', row_separator_char = ''-'',
      intersect_top_left = ''+'', intersect_top_mid = ''+'', intersect_top_right = ''+'',
      intersect_header_left = ''+'', intersect_header_mid = ''+'',
      intersect_header_right = ''+'',
      intersect_row_left = ''+'', intersect_row_mid = ''+'', intersect_row_right = ''+'',
      intersect_bottom_left = ''+'', intersect_bottom_mid = ''+'',
      intersect_bottom_right = ''+''\<rparr>"

text \<open>A table of one column headed "a" and the two rows (1) and (2).\<close>

definition two_rows :: "int table" where
  "two_rows =
     \<lparr>ncol = 1, data = [[Some 1], [Some 2]], rows_header = [None, None],
      columns_header = [Some ''a''], columns_alignment = [ALIGN_CENTER],
      columns_width = [0], columns_padding_left = [1], columns_padding_right = [1],
      default_alignment = ALIGN_CENTER, default_padding = 1, maxwidth' = 80,
      left_border_char = ''|'', right_border_char = ''|'', column_separator_char = ''|'',
      lines = grid_lines, width_exceed_policy = WEP_WRAP, pad_character = '' '',
      header_alignment = None, serialno = False, serialno_header = ''SN''\<rparr>"

text \<open>The table as \<^verbatim>\<open>BeautifulTable()\<close> creates it: no column, no row.\<close>

definition empty_table :: "int table" where
  "empty_table =
     \<lparr>ncol = 0, data = [], rows_header = [],
      columns_header = [], columns_alignment = [],
      columns_width = [], columns_padding_left = [], columns_padding_right = [],
      default_alignment = ALIGN_CENTER, default_padding = 1, maxwidth' = 80,
      left_border_char = ''|'', right_border_char = ''|'', column_separator_char = ''|'',
      lines = grid_lines, width_exceed_policy = WEP_WRAP, pad_character = '' '',
      header_alignment = None, serialno = False, serialno_header = ''SN''\<rparr>"

text \<open>The table \<open>two_rows\<close> after its only column is gone.\<close>

definition two_rows_cleared :: "int table" where
  "two_rows_cleared =
     two_rows\<lparr>ncol := 0, data := [], rows_header := [], columns_header := [],
       columns_alignment := [], columns_width := [],
       columns_padding_left := [], columns_padding_right := []\<rparr>"

section \<open>Width allocation\<close>

text \<open>
  What the table code takes from modules that are not among the sources (ansi.py,
  compat.py) or that work on floats (the number formatting of \<^verbatim>\<open>pre_process\<close>), as
  \<open>6\<close> of the spec lists them: \<^verbatim>\<open>termwidth\<close> (the display width of a string),
  \<^verbatim>\<open>textwrap\<close> (the lines a string is wrapped into at a width), and what
  \<^verbatim>\<open>pre_process\<close> makes of a value that is not None (\<open>format_value\<close> for a cell,
  \<open>format_str\<close> for a str), under the table's \<^verbatim>\<open>detect_numerics\<close>,
  \<^verbatim>\<open>numeric_precision\<close> and \<^verbatim>\<open>sign_mode\<close>. The model takes them as parameters.
\<close>

record 'a collaborators =
  termwidth :: "string \<Rightarrow> nat"
  textwrap :: "string \<Rightarrow> int \<Rightarrow> string list"
  format_value :: "'a \<Rightarrow> string"
  format_str :: "string \<Rightarrow> string"

text \<open>\<^verbatim>\<open>utils.pre_process\<close>: \<^verbatim>\<open>if item is None: return ''\<close>, then the formatting.\<close>

definition pre_process :: "('a \<Rightarrow> string) \<Rightarrow> 'a option \<Rightarrow> string" where
  "pre_process fmt item = (case item of None \<Rightarrow> [] | Some v \<Rightarrow> fmt v)"

text \<open>\<^verbatim>\<open>s.split("\n")\<close>: at least one piece, the empty string for the empty string.\<close>

fun split_lines :: "string \<Rightarrow> string list" where
  "split_lines [] = [[]]"
| "split_lines (c # cs) =
     (if c = CHR 0x0A then [] # split_lines cs
      else (case split_lines cs of [] \<Rightarrow> [[c]] | l # ls \<Rightarrow> (c # l) # ls))"

text \<open>
  \<^verbatim>\<open>int(a / b)\<close> on ints: the quotient rounded towards zero, ZeroDivisionError for
  \<open>b = 0\<close>. Python divides in floating point here; the result is the exact one as long
  as the numbers stay below \<open>2 ^ 53\<close>, which widths counted in characters do.
\<close>

definition py_int_div :: "int \<Rightarrow> int \<Rightarrow> error + int" where
  "py_int_div a b =
     (if b = 0 then Inl ZeroDivisionError
      else Inr (sgn a * sgn b * (\<bar>a\<bar> div \<bar>b\<bar>)))"

text \<open>The property \<^verbatim>\<open>BeautifulTable.width\<close>.\<close>

definition table_width :: "'a collaborators \<Rightarrow> 'a table \<Rightarrow> int" where
  "table_width E t =
     (if ncol t = 0 then 0
      else sum_list (columns_width t)
         + (int (ncol t) - 1) * int (termwidth E (column_separator_char t))
         + int (termwidth E (left_border_char t))
         + int (termwidth E (right_border_char t)))"

text \<open>
  The inner loops of \<^verbatim>\<open>_calculate_width\<close>: the widest line of a value, starting from
  \<open>max_length\<close>:
  \<^verbatim>\<open>for j in pre_process(i, ...).split("\n"): max_length = max(max_length, termwidth(pre_process(j, ...)))\<close>.
\<close>

definition widest_line :: "'a collaborators \<Rightarrow> string \<Rightarrow> int \<Rightarrow> int" where
  "widest_line E s max_length =
     fold (\<lambda>j m. max m (int (termwidth E (pre_process (format_str E) (Some j)))))
       (split_lines s) max_length"

text \<open>
  \<^verbatim>\<open>pad_widths = [(lpw[i] + rpw[i]) for i in range(len(self.columns))]\<close>: IndexError when
  a padding list is shorter than the column count.
\<close>

definition pad_widths :: "'a table \<Rightarrow> error + int list" where
  "pad_widths t =
     (if length (columns_padding_left t) < ncol t \<or> length (columns_padding_right t) < ncol t
      then Inl IndexError
      else Inr (map (\<lambda>i. columns_padding_left t ! i + columns_padding_right t ! i)
                  [0 ..< ncol t]))"

text \<open>
  The loop over \<^verbatim>\<open>enumerate(self.columns.header)\<close>, on \<open>maxwidths\<close> (all 0 before it):
  \<^verbatim>\<open>maxwidths[index] += max_length\<close>, IndexError when there are more headers than
  columns.
\<close>

fun header_widths :: "'a collaborators \<Rightarrow> string option list \<Rightarrow> int list \<Rightarrow> error + int list" where
  "header_widths E [] maxwidths = Inr maxwidths"
| "header_widths E (header # hs) [] = Inl IndexError"
| "header_widths E (header # hs) (m # maxwidths) =
     (case header_widths E hs maxwidths of
        Inl e \<Rightarrow> Inl e
      | Inr ws \<Rightarrow> Inr ((m + widest_line E (pre_process (format_str E) header) 0) # ws))"

text \<open>
  \<^verbatim>\<open>zip(*self._data)\<close>: the columns of the rows, as many as the shortest row has cells,
  none when there is no row.
\<close>

definition zip_star :: "'c list list \<Rightarrow> 'c list list" where
  "zip_star rows =
     (case rows of
        [] \<Rightarrow> []
      | r # rs \<Rightarrow>
          map (\<lambda>i. map (\<lambda>row. row ! i) rows)
            [0 ..< fold (\<lambda>row m. min m (length row)) rs (length r)])"

text \<open>
  The loop over \<^verbatim>\<open>enumerate(zip(*self._data))\<close>: each column raises its entry of
  \<open>maxwidths\<close> to its widest line, IndexError when there are more columns of cells than
  entries.
\<close>

fun data_widths :: "'a collaborators \<Rightarrow> 'a option list list \<Rightarrow> int list \<Rightarrow> error + int list" where
  "data_widths E [] maxwidths = Inr maxwidths"
| "data_widths E (column # cs) [] = Inl IndexError"
| "data_widths E (column # cs) (m # maxwidths) =
     (case data_widths E cs maxwidths of
        Inl e \<Rightarrow> Inl e
      | Inr ws \<Rightarrow>
          Inr (fold (\<lambda>i max_length. widest_line E (pre_process (format_value E) i) max_length)
                 column m # ws))"

text \<open>
  The loop that flags the columns within their fair share: \<open>temp_sum\<close> and \<open>flag\<close>.
\<close>

fun flag_loop :: "int \<Rightarrow> nat \<Rightarrow> int list \<Rightarrow> error + (int \<times> bool list)" where
  "flag_loop desired_sum n [] = Inr (0, [])"
| "flag_loop desired_sum n (width # ws) =
     (case py_int_div desired_sum (int n) of
        Inl e \<Rightarrow> Inl e
      | Inr fair \<Rightarrow>
         (case flag_loop desired_sum n ws of
            Inl e \<Rightarrow> Inl e
          | Inr (temp_sum, flag) \<Rightarrow>
              if width \<le> fair then Inr (width + temp_sum, True # flag)
              else Inr (1 + temp_sum, False # flag)))"

text \<open>
  The dict \<^verbatim>\<open>shrinked_columns\<close>, from a shrunk width to the index of the last column
  shrunk to it: \<^verbatim>\<open>d[k] = v\<close> replaces the value of a key that is there.
\<close>

fun dict_set :: "'k \<Rightarrow> 'v \<Rightarrow> ('k \<times> 'v) list \<Rightarrow> ('k \<times> 'v) list" where
  "dict_set k v [] = [(k, v)]"
| "dict_set k v (p # ps) = (if fst p = k then (k, v) # ps else p # dict_set k v ps)"

text \<open>
  The shrinking loop, over \<^verbatim>\<open>enumerate(maxwidths)\<close> with the flags, from index
  \<open>i\<close> on: the new widths and \<^verbatim>\<open>shrinked_columns\<close>. \<open>len\<close> is the length of
  \<^verbatim>\<open>self.columns.width\<close>, whose entry \<open>i\<close> each round assigns.
\<close>

fun shrink_loop ::
  "int \<Rightarrow> int \<Rightarrow> nat \<Rightarrow> nat \<Rightarrow> (int \<times> bool) list \<Rightarrow> (int \<times> nat) list
     \<Rightarrow> error + (int list \<times> (int \<times> nat) list)" where
  "shrink_loop avail_space actual_space len i [] shrinked = Inr ([], shrinked)"
| "shrink_loop avail_space actual_space len i ((width, flag) # rest) shrinked =
     (if \<not> i < len then Inl IndexError
      else if flag then
        (case shrink_loop avail_space actual_space len (Suc i) rest shrinked of
           Inl e \<Rightarrow> Inl e
         | Inr (ws, sh) \<Rightarrow> Inr (width # ws, sh))
      else
        (case py_int_div ((width - 1) * avail_space) actual_space of
           Inl e \<Rightarrow> Inl e
         | Inr q \<Rightarrow>
            (let new_width = 1 + q
             in if new_width < width then
                  (case shrink_loop avail_space actual_space len (Suc i) rest
                          (dict_set new_width i shrinked) of
                     Inl e \<Rightarrow> Inl e
                   | Inr (ws, sh) \<Rightarrow> Inr (new_width # ws, sh))
                else
                  (case shrink_loop avail_space actual_space len (Suc i) rest shrinked of
                     Inl e \<Rightarrow> Inl e
                   | Inr (ws, sh) \<Rightarrow> Inr (width # ws, sh)))))"

text \<open>
  The loop that divides the remaining space, over \<^verbatim>\<open>enumerate(sorted(shrinked_columns))\<close>;
  \<open>budget\<close> is \<^verbatim>\<open>self._maxwidth - offset\<close>. The extra width goes to
  \<^verbatim>\<open>self.columns.width[i]\<close>, \<open>i\<close> the position in the sorted keys; the last round adds
  what is then left to \<^verbatim>\<open>self.columns.width[index]\<close>.
\<close>

fun divide_loop ::
  "int \<Rightarrow> int \<Rightarrow> int \<Rightarrow> (int \<times> nat) list \<Rightarrow> (nat \<times> int) list \<Rightarrow> int list
     \<Rightarrow> error + int list" where
  "divide_loop budget extra actual_space shrinked [] ws = Inr ws"
| "divide_loop budget extra actual_space shrinked ((i, width) # rest) ws =
     (case map_of shrinked width of
        None \<Rightarrow> Inl KeyError
      | Some index \<Rightarrow>
         (case py_int_div (width * extra) actual_space of
            Inl e \<Rightarrow> Inl e
          | Inr extra_width \<Rightarrow>
              if i < length ws then
                (let ws1 = ws[i := ws ! i + extra_width]
                 in if int i = int (length shrinked) - 1 then
                      (let extra' = budget - sum_list ws1
                       in if index < length ws1
                          then divide_loop budget extra' actual_space shrinked rest
                                 (ws1[index := ws1 ! index + extra'])
                          else Inl IndexError)
                    else divide_loop budget extra actual_space shrinked rest ws1)
              else Inl IndexError))"

text \<open>\<^verbatim>\<open>if shrinked_columns: ...\<close>, the whole step.\<close>

definition divide_remaining :: "int \<Rightarrow> (int \<times> nat) list \<Rightarrow> int list \<Rightarrow> error + int list" where
  "divide_remaining budget shrinked ws =
     (if shrinked = [] then Inr ws
      else
        (let extra = budget - sum_list ws;
             actual_space = sum_list (map fst shrinked)
         in if extra > 0
            then divide_loop budget extra actual_space shrinked
                   (zip [0 ..< length shrinked] (sort (map fst shrinked))) ws
            else Inr ws))"

text \<open>
  The widths without padding that \<^verbatim>\<open>_calculate_width\<close> leaves in
  \<^verbatim>\<open>self.columns.width\<close> for columns of natural widths \<open>maxwidths\<close> in a budget of
  \<open>desired_sum\<close>: the flags, the shrinking and the division of what remains. \<open>old\<close> is
  \<^verbatim>\<open>self.columns.width\<close> before; its entries beyond \<open>len(maxwidths)\<close> stay.
\<close>

definition allocate :: "int \<Rightarrow> nat \<Rightarrow> int list \<Rightarrow> int list \<Rightarrow> error + int list" where
  "allocate desired_sum n maxwidths old =
     (case flag_loop desired_sum n maxwidths of
        Inl e \<Rightarrow> Inl e
      | Inr (temp_sum, flag) \<Rightarrow>
         (let avail_space = desired_sum - temp_sum;
              actual_space = sum_list maxwidths - temp_sum
          in case shrink_loop avail_space actual_space (length old) 0 (zip maxwidths flag) [] of
               Inl e \<Rightarrow> Inl e
             | Inr (ws, shrinked) \<Rightarrow>
                 divide_remaining desired_sum shrinked (ws @ drop (length maxwidths) old)))"

text \<open>
  \<open>maxwidths\<close> as the two loops over the headers and over the columns of cells leave
  it: the natural width of each column.
\<close>

definition natural_widths :: "'a collaborators \<Rightarrow> 'a table \<Rightarrow> error + int list" where
  "natural_widths E t =
     (case header_widths E (columns_header t) (replicate (ncol t) 0) of
        Inl e \<Rightarrow> Inl e
      | Inr hw \<Rightarrow> data_widths E (zip_star (data t)) hw)"

text \<open>
  \<^verbatim>\<open>offset = table_width - sum(self.columns.width) + sum(pad_widths)\<close>: what the
  separators, borders and padding take.
\<close>

definition offset_of :: "'a collaborators \<Rightarrow> 'a table \<Rightarrow> int list \<Rightarrow> int" where
  "offset_of E t pads = table_width E t - sum_list (columns_width t) + sum_list pads"

text \<open>
  \<^verbatim>\<open>BeautifulTable._calculate_width\<close>; the last loop adds \<^verbatim>\<open>pad_widths[i]\<close> to each
  of the first \<open>ncol\<close> widths. The result is the table after the call, or the exception.
  (What meta.py checks when a width is assigned is not among the sources and is not part
  of the model.)
\<close>

definition calculate_width :: "'a collaborators \<Rightarrow> 'a table \<Rightarrow> error + 'a table" where
  "calculate_width E t =
     (case pad_widths t of
        Inl e \<Rightarrow> Inl e
      | Inr pads \<Rightarrow>
         (let n = ncol t;
              offset = offset_of E t pads;
              m = max (maxwidth' t) (offset + int n)
          in case natural_widths E t of
               Inl e \<Rightarrow> Inl e
             | Inr maxwidths \<Rightarrow>
                (case allocate (m - offset) n maxwidths (columns_width t) of
                   Inl e \<Rightarrow> Inl e
                 | Inr ws \<Rightarrow>
                     Inr (t\<lparr>maxwidth' := m,
                            columns_width :=
                              map (\<lambda>(w, p). w + p) (zip (take n ws) pads)
                              @ drop n ws\<rparr>))))"

text \<open>
  The width that the separators and borders of a table take, and the least width that
  leaves every column one printable character besides its padding (the spec's "minimum
  feasible width").
\<close>

definition borders_width :: "'a collaborators \<Rightarrow> 'a table \<Rightarrow> int" where
  "borders_width E t =
     (int (ncol t) - 1) * int (termwidth E (column_separator_char t))
       + int (termwidth E (left_border_char t))
       + int (termwidth E (right_border_char t))"

definition min_feasible_width :: "'a collaborators \<Rightarrow> 'a table \<Rightarrow> int" where
  "min_feasible_width E t =
     borders_width E t
       + sum_list (map (\<lambda>i. 1 + columns_padding_left t ! i + columns_padding_right t ! i)
                     [0 ..< ncol t])"

text \<open>
  What the shrinking step makes of a natural width \<open>w\<close>, for a fair share \<open>f\<close>, and
  the shape of \<^verbatim>\<open>shrinked_columns\<close>: distinct keys (shrunk widths) of at least 1,
  each with the index of a column.
\<close>

definition shrunk :: "int \<Rightarrow> int \<Rightarrow> int \<Rightarrow> int \<Rightarrow> int" where
  "shrunk A S f w =
     (if w \<le> f then w
      else if 1 + ((w - 1) * A) div S < w then 1 + ((w - 1) * A) div S else w)"

definition good_dict :: "nat \<Rightarrow> (int \<times> nat) list \<Rightarrow> bool" where
  "good_dict len sh \<longleftrightarrow> distinct (map fst sh) \<and> (\<forall>(k, v) \<in> set sh. 1 \<le> k \<and> v < len)"

text \<open>
  Collaborators for plain text: every character one column wide, values that are
  strings shown as they are, and a wrap that breaks after every \<open>width\<close> characters
  (for a width of 0 or less: an empty line, then one character per line).
\<close>

fun chunks :: "nat \<Rightarrow> nat \<Rightarrow> string \<Rightarrow> string list" where
  "chunks 0 w s = [s]"
| "chunks (Suc fuel) w s =
     (if length s \<le> w \<or> w = 0 then [s] else take w s # chunks fuel w (drop w s))"

definition plain :: "string collaborators" where
  "plain =
     \<lparr>termwidth = length,
      textwrap = (\<lambda>s w. if w \<le> 0 then [] # map (\<lambda>c. [c]) s
                        else chunks (length s) (nat w) s),
      format_value = (\<lambda>s. s),
      format_str = (\<lambda>s. s)\<rparr>"

text \<open>
  The default style with one row of cells 3, 6 and 5 characters wide, no headers, and
  \<^verbatim>\<open>maxwidth = 18\<close>: borders, separators and padding take 10 columns, 8 are left.
\<close>

definition narrow_table :: "string table" where
  "narrow_table =
     \<lparr>ncol = 3, data = [[Some ''abc'', Some ''abcdef'', Some ''abcde'']],
      rows_header = [None],
      columns_header = [None, None, None],
      columns_alignment = [ALIGN_CENTER, ALIGN_CENTER, ALIGN_CENTER],
      columns_width = [0, 0, 0],
      columns_padding_left = [1, 1, 1], columns_padding_right = [1, 1, 1],
      default_alignment = ALIGN_CENTER, default_padding = 1, maxwidth' = 18,
      left_border_char = ''|'', right_border_char = ''|'', column_separator_char = ''|'',
      lines = grid_lines, width_exceed_policy = WEP_WRAP, pad_character = '' '',
      header_alignment = None, serialno = False, serialno_header = ''SN''\<rparr>"

section \<open>Lines and cells\<close>

subsection \<open>Python strings\<close>

text \<open>
  \<^verbatim>\<open>str.isspace()\<close> on characters below 256: true when the string is not empty and
  every character is whitespace (tab, the line and paragraph separators, space, NEL,
  no-break space).
\<close>

definition whitespace_char :: "char \<Rightarrow> bool" where
  "whitespace_char c \<longleftrightarrow>
     (of_char c :: nat) \<in> {9, 10, 11, 12, 13, 28, 29, 30, 31, 32, 133, 160}"

definition isspace :: "string \<Rightarrow> bool" where
  "isspace s \<longleftrightarrow> s \<noteq> [] \<and> list_all whitespace_char s"

text \<open>\<^verbatim>\<open>s * k\<close>: the empty string for \<open>k \<le> 0\<close>.\<close>

definition str_mul :: "'c list \<Rightarrow> int \<Rightarrow> 'c list" where
  "str_mul s k = concat (replicate (nat k) s)"

text \<open>\<^verbatim>\<open>xs[:n]\<close>: the first \<open>n\<close> elements, all but the last \<open>-n\<close> for a negative \<open>n\<close>.\<close>

definition slice_to :: "int \<Rightarrow> 'c list \<Rightarrow> 'c list" where
  "slice_to n xs = (if n < 0 then take (nat (int (length xs) + n)) xs else take (nat n) xs)"

text \<open>\<^verbatim>\<open>xs[i]\<close> and \<^verbatim>\<open>xs[i] = x\<close>.\<close>

definition list_get :: "'c list \<Rightarrow> int \<Rightarrow> error + 'c" where
  "list_get xs i = (case py_index (length xs) i of Inl e \<Rightarrow> Inl e | Inr j \<Rightarrow> Inr (xs ! j))"

definition list_set :: "int \<Rightarrow> 'c \<Rightarrow> 'c list \<Rightarrow> error + 'c list" where
  "list_set i x xs =
     (case py_index (length xs) i of Inl e \<Rightarrow> Inl e | Inr j \<Rightarrow> Inr (xs[j := x]))"

subsection \<open>Horizontal lines\<close>

text \<open>
  \<^verbatim>\<open>for i in range(length): line[p(i)] = glyph[q(i)]\<close>, the loop that writes an
  intersection into the line; \<open>p\<close> and \<open>q\<close> give the two indices.
\<close>

fun put_chars ::
  "(nat \<Rightarrow> int) \<Rightarrow> (nat \<Rightarrow> int) \<Rightarrow> string \<Rightarrow> nat list \<Rightarrow> string \<Rightarrow> error + string" where
  "put_chars p q glyph [] line = Inr line"
| "put_chars p q glyph (i # rest) line =
     (case list_get glyph (q i) of
        Inl e \<Rightarrow> Inl e
      | Inr c \<Rightarrow>
         (case list_set (p i) c line of
            Inl e \<Rightarrow> Inl e
          | Inr line' \<Rightarrow> put_chars p q glyph rest line'))"

text \<open>
  The loop over the column boundaries, \<^verbatim>\<open>for i in range(len(self.columns) - 1)\<close>,
  with the running \<open>index\<close>.
\<close>

fun mid_loop ::
  "'a collaborators \<Rightarrow> 'a table \<Rightarrow> string \<Rightarrow> nat list \<Rightarrow> int \<Rightarrow> string \<Rightarrow> error + string" where
  "mid_loop E t intersect_mid [] index line = Inr line"
| "mid_loop E t intersect_mid (i # rest) index line =
     (case list_get (columns_width t) (int i) of
        Inl e \<Rightarrow> Inl e
      | Inr w \<Rightarrow>
         (let index1 = index + w;
              len = min (termwidth E (column_separator_char t)) (termwidth E intersect_mid)
          in case put_chars (\<lambda>j. index1 + int j) int intersect_mid [0 ..< len] line of
               Inl e \<Rightarrow> Inl e
             | Inr line' \<Rightarrow>
                 mid_loop E t intersect_mid rest
                   (index1 + int (termwidth E (column_separator_char t))) line'))"

text \<open>The three steps under \<^verbatim>\<open>if not char.isspace():\<close>, left, right and mid.\<close>

definition write_left :: "'a collaborators \<Rightarrow> 'a table \<Rightarrow> string \<Rightarrow> string \<Rightarrow> error + string" where
  "write_left E t intersect_left line =
     (if termwidth E (left_border_char t) > 0
         \<and> \<not> (isspace (left_border_char t) \<and> \<not> isspace intersect_left)
      then put_chars int int intersect_left
             [0 ..< min (termwidth E (left_border_char t)) (termwidth E intersect_left)] line
      else Inr line)"

definition write_right :: "'a collaborators \<Rightarrow> 'a table \<Rightarrow> string \<Rightarrow> string \<Rightarrow> error + string" where
  "write_right E t intersect_right line =
     (if termwidth E (right_border_char t) > 0
         \<and> \<not> (isspace (right_border_char t) \<and> \<not> isspace intersect_right)
      then put_chars (\<lambda>i. - int i - 1) (\<lambda>i. - int i - 1) intersect_right
             [0 ..< min (termwidth E (right_border_char t)) (termwidth E intersect_right)] line
      else Inr line)"

definition write_mid :: "'a collaborators \<Rightarrow> 'a table \<Rightarrow> string \<Rightarrow> string \<Rightarrow> error + string" where
  "write_mid E t intersect_mid line =
     (if termwidth E (column_separator_char t) \<noteq> 0
         \<and> \<not> (isspace (column_separator_char t) \<and> \<not> isspace intersect_mid)
      then mid_loop E t intersect_mid [0 ..< ncol t - 1]
             (int (termwidth E (left_border_char t))) line
      else Inr line)"

text \<open>
  The line before the intersections are written:
  \<^verbatim>\<open>list(char * (int(width / termwidth(char)) + 1))[:width]\<close>, or \<open>width\<close> spaces when
  \<^verbatim>\<open>termwidth(char)\<close> is 0 (the handler of ZeroDivisionError).
\<close>

definition fill_line :: "'a collaborators \<Rightarrow> 'a table \<Rightarrow> string \<Rightarrow> string" where
  "fill_line E t char =
     (let width = table_width E t
      in case py_int_div width (int (termwidth E char)) of
           Inl e \<Rightarrow> replicate (nat width) (CHR '' '')
         | Inr q \<Rightarrow> slice_to width (str_mul char (q + 1)))"

text \<open>
  \<^verbatim>\<open>BeautifulTable._get_horizontal_line(char, intersect_left, intersect_mid, intersect_right)\<close>.
\<close>

definition get_horizontal_line ::
  "'a collaborators \<Rightarrow> 'a table \<Rightarrow> string \<Rightarrow> string \<Rightarrow> string \<Rightarrow> string \<Rightarrow> error + string" where
  "get_horizontal_line E t char intersect_left intersect_mid intersect_right =
     (let line = fill_line E t char
      in if length line = 0 then Inr []
         else if \<not> isspace char then
           (case write_left E t intersect_left line of
              Inl e \<Rightarrow> Inl e
            | Inr line1 \<Rightarrow>
               (case write_right E t intersect_right line1 of
                  Inl e \<Rightarrow> Inl e
                | Inr line2 \<Rightarrow> write_mid E t intersect_mid line2))
         else Inr line)"

subsection \<open>Clamping a cell\<close>

text \<open>
  \<^verbatim>\<open>self._table.columns.width[index] - lpw[index] - rpw[index]\<close>, the printable width
  of column \<open>index\<close>.
\<close>

definition printable_width :: "'a table \<Rightarrow> nat \<Rightarrow> error + int" where
  "printable_width t index =
     (if index < length (columns_width t) \<and> index < length (columns_padding_left t)
         \<and> index < length (columns_padding_right t)
      then Inr (columns_width t ! index - columns_padding_left t ! index
                  - columns_padding_right t ! index)
      else Inl IndexError)"

text \<open>
  \<^verbatim>\<open>BTRowData._clamp_string(row_item, index, delimiter)\<close>; \<^verbatim>\<open>textwrap(...)[0]\<close> raises
  IndexError when the wrap has no line.
\<close>

definition clamp_string ::
  "'a collaborators \<Rightarrow> 'a table \<Rightarrow> string \<Rightarrow> nat \<Rightarrow> string \<Rightarrow> error + string" where
  "clamp_string E t row_item index delimiter =
     (case printable_width t index of
        Inl e \<Rightarrow> Inl e
      | Inr width \<Rightarrow>
          if int (termwidth E row_item) \<le> width then Inr row_item
          else if width - int (length delimiter) \<ge> 0 then
            (case textwrap E row_item (width - int (length delimiter)) of
               [] \<Rightarrow> Inl IndexError
             | l # ls \<Rightarrow> Inr (l @ delimiter))
          else Inr (slice_to width delimiter))"



subsection \<open>Rendering a row\<close>

text \<open>\<^verbatim>\<open>zip_longest(*lists, fillvalue="")\<close>: as many tuples as the longest list has items.\<close>

definition zip_longest :: "string list list \<Rightarrow> string list list" where
  "zip_longest ps =
     map (\<lambda>k. map (\<lambda>p. if k < length p then p ! k else []) ps)
       [0 ..< fold (\<lambda>p m. max m (length p)) ps 0]"

text \<open>A list comprehension or loop body that may raise: the first exception ends it.\<close>

fun all_ok :: "(error + 'b) list \<Rightarrow> error + 'b list" where
  "all_ok [] = Inr []"
| "all_ok (r # rs) =
     (case r of
        Inl e \<Rightarrow> Inl e
      | Inr x \<Rightarrow> (case all_ok rs of Inl e \<Rightarrow> Inl e | Inr xs \<Rightarrow> Inr (x # xs)))"

text \<open>
  \<^verbatim>\<open>left_pad + s + right_pad\<close> for column \<open>index\<close>, the pads being
  \<^verbatim>\<open>_pad_character * lpw[index]\<close> and \<^verbatim>\<open>_pad_character * rpw[index]\<close>.
\<close>

definition padded :: "'a table \<Rightarrow> nat \<Rightarrow> string \<Rightarrow> error + string" where
  "padded t index s =
     (if index < length (columns_padding_left t) \<and> index < length (columns_padding_right t)
      then Inr (str_mul (pad_character t) (columns_padding_left t ! index) @ s
                  @ str_mul (pad_character t) (columns_padding_right t ! index))
      else Inl IndexError)"

text \<open>
  \<^verbatim>\<open>BTRowData._clamp_row(row)\<close>: under the policies strip and ellipsis every item is
  clamped with the delimiter \<open>""\<close> or \<open>"..."\<close> and padded, which gives one line; under
  wrap every item is wrapped, and the lines of the items are put side by side.
\<close>

definition clamp_row :: "'a collaborators \<Rightarrow> 'a table \<Rightarrow> string list \<Rightarrow> error + string list list" where
  "clamp_row E t row =
     (case width_exceed_policy t of
        WEP_WRAP \<Rightarrow>
          (case all_ok (map (\<lambda>(index, row_item).
                    case printable_width t index of
                      Inl e \<Rightarrow> Inl e
                    | Inr width \<Rightarrow> Inr (textwrap E row_item width))
                  (zip [0 ..< length row] row)) of
             Inl e \<Rightarrow> Inl e
           | Inr string_partition \<Rightarrow>
              (case all_ok (map (\<lambda>row_items.
                        all_ok (map (\<lambda>(index, row_item). padded t index row_item)
                                  (zip [0 ..< length row_items] row_items)))
                      (zip_longest string_partition)) of
                 Inl e \<Rightarrow> Inl e
               | Inr result \<Rightarrow>
                   Inr (if length result = 0 then [replicate (ncol t) []] else result)))
      | wep \<Rightarrow>
          (let delimiter = (if wep = WEP_STRIP then [] else ''...'')
           in case all_ok (map (\<lambda>(index, row_item).
                      case clamp_string E t row_item index delimiter of
                        Inl e \<Rightarrow> Inl e
                      | Inr s \<Rightarrow> padded t index s)
                    (zip [0 ..< length row] row)) of
                Inl e \<Rightarrow> Inl e
              | Inr row_item_list \<Rightarrow> Inr [row_item_list]))"

text \<open>
  The alignment of one cell in \<^verbatim>\<open>BTRowData.__str__\<close>: \<^verbatim>\<open>pad_len\<close> spaces on the right,
  on the left, or half of them (rounded down) on the left and the rest on the right.
\<close>

definition aligned :: "'a collaborators \<Rightarrow> alignment \<Rightarrow> int \<Rightarrow> string \<Rightarrow> string" where
  "aligned E a width s =
     (let pad_len = width - int (termwidth E s)
      in case a of
           ALIGN_LEFT \<Rightarrow> s @ str_mul '' '' pad_len
         | ALIGN_RIGHT \<Rightarrow> str_mul '' '' pad_len @ s
         | ALIGN_CENTER \<Rightarrow>
             str_mul '' '' (pad_len div 2) @ s @ str_mul '' '' (pad_len - pad_len div 2))"

text \<open>\<^verbatim>\<open>for i in range(len(table.columns)): row_[i] = ...\<close>, the aligning loop.\<close>

fun align_loop ::
  "'a collaborators \<Rightarrow> 'a table \<Rightarrow> alignment list \<Rightarrow> nat list \<Rightarrow> string list \<Rightarrow> error + string list" where
  "align_loop E t align [] row = Inr row"
| "align_loop E t align (i # rest) row =
     (if i < length (columns_width t) \<and> i < length row \<and> i < length align
      then align_loop E t align rest (row[i := aligned E (align ! i) (columns_width t ! i) (row ! i)])
      else Inl IndexError)"

text \<open>\<^verbatim>\<open>sep.join(items)\<close>.\<close>

fun join :: "string \<Rightarrow> string list \<Rightarrow> string" where
  "join sep [] = []"
| "join sep [x] = x"
| "join sep (x # y # ys) = x @ sep @ join sep (y # ys)"

text \<open>
  \<^verbatim>\<open>BTRowData.__str__\<close> on the texts that \<^verbatim>\<open>pre_process\<close> makes of the values of the
  row, with the alignments \<open>align\<close> that \<^verbatim>\<open>_get_props\<close> gives. (A cell that is itself
  a table is a value like any other here: its text is what \<open>format_value\<close> says.)
\<close>

definition row_str :: "'a collaborators \<Rightarrow> 'a table \<Rightarrow> alignment list \<Rightarrow> string list \<Rightarrow> error + string" where
  "row_str E t align texts =
     (case all_ok (map (\<lambda>row.
               case clamp_row E t (map (\<lambda>j. pre_process (format_str E) (Some j)) row) of
                 Inl e \<Rightarrow> Inl e
               | Inr clamped \<Rightarrow>
                   all_ok (map (\<lambda>row'.
                       case align_loop E t align [0 ..< ncol t] row' of
                         Inl e \<Rightarrow> Inl e
                       | Inr cells \<Rightarrow>
                           Inr (left_border_char t @ join (column_separator_char t) cells
                                  @ right_border_char t))
                     clamped))
             (zip_longest (map split_lines texts))) of
        Inl e \<Rightarrow> Inl e
      | Inr string \<Rightarrow> Inr (join [CHR 0x0A] (concat string)))"

text \<open>The text of a row of the table, and of the header row.\<close>

definition data_row_str :: "'a collaborators \<Rightarrow> 'a table \<Rightarrow> 'a option list \<Rightarrow> error + string" where
  "data_row_str E t row =
     row_str E t (columns_alignment t) (map (pre_process (format_value E)) row)"

definition header_str :: "'a collaborators \<Rightarrow> 'a table \<Rightarrow> error + string" where
  "header_str E t =
     row_str E t
       (case header_alignment t of None \<Rightarrow> columns_alignment t | Some a \<Rightarrow> a)
       (map (pre_process (format_str E)) (columns_header t))"

subsection \<open>Rendering the table\<close>

text \<open>
  The lines \<^verbatim>\<open>_get_string\<close> yields for the rows of the table, a row separator
  between two rows when \<^verbatim>\<open>row_separator_char\<close> is not empty.
\<close>

fun row_lines ::
  "'a collaborators \<Rightarrow> 'a table \<Rightarrow> bool \<Rightarrow> 'a option list list \<Rightarrow> error + string list" where
  "row_lines E t first_row_encountered [] = Inr []"
| "row_lines E t first_row_encountered (row # rest) =
     (case (if first_row_encountered \<and> row_separator_char (lines t) \<noteq> []
            then (case get_horizontal_line E t (row_separator_char (lines t))
                         (intersect_row_left (lines t)) (intersect_row_mid (lines t))
                         (intersect_row_right (lines t)) of
                    Inl e \<Rightarrow> Inl e
                  | Inr l \<Rightarrow> Inr [l])
            else Inr []) of
        Inl e \<Rightarrow> Inl e
      | Inr sep \<Rightarrow>
         (case data_row_str E t row of
            Inl e \<Rightarrow> Inl e
          | Inr content \<Rightarrow>
             (case row_lines E t True rest of
                Inl e \<Rightarrow> Inl e
              | Inr ls \<Rightarrow> Inr (sep @ content # ls))))"

text \<open>
  The lines between the serial-number steps of \<^verbatim>\<open>_get_string\<close>: the top border, the
  headers and their separator when some header has a character that is not whitespace,
  the rows, the bottom border.
\<close>

definition body_lines :: "'a collaborators \<Rightarrow> 'a table \<Rightarrow> error + string list" where
  "body_lines E t =
     (case all_ok
        [if top_border_char (lines t) \<noteq> []
         then (case get_horizontal_line E t (top_border_char (lines t))
                      (intersect_top_left (lines t)) (intersect_top_mid (lines t))
                      (intersect_top_right (lines t)) of
                 Inl e \<Rightarrow> Inl e | Inr l \<Rightarrow> Inr [l])
         else Inr [],
         if \<not> list_all whitespace_char
                (concat (map (\<lambda>x. case x of None \<Rightarrow> [] | Some h \<Rightarrow> h) (columns_header t)))
         then (case header_str E t of
                 Inl e \<Rightarrow> Inl e
               | Inr header \<Rightarrow>
                   if header_separator_char (lines t) \<noteq> []
                   then (case get_horizontal_line E t (header_separator_char (lines t))
                                (intersect_header_left (lines t))
                                (intersect_header_mid (lines t))
                                (intersect_header_right (lines t)) of
                           Inl e \<Rightarrow> Inl e | Inr l \<Rightarrow> Inr [header, l])
                   else Inr [header])
         else Inr [],
         row_lines E t False (data t),
         if bottom_border_char (lines t) \<noteq> []
         then (case get_horizontal_line E t (bottom_border_char (lines t))
                      (intersect_bottom_left (lines t)) (intersect_bottom_mid (lines t))
                      (intersect_bottom_right (lines t)) of
                 Inl e \<Rightarrow> Inl e | Inr l \<Rightarrow> Inr [l])
         else Inr []] of
        Inl e \<Rightarrow> Inl e
      | Inr parts \<Rightarrow> Inr (concat parts))"

text \<open>
  \<^verbatim>\<open>_get_string([], append=False, recalculate_width)\<close>, run to its end as
  \<^verbatim>\<open>get_string\<close> runs it: the lines and the table afterwards, or the exception and the
  table as it was left. With \<^verbatim>\<open>serialno\<close> the column of the numbers \<open>1 .. len(self)\<close>
  is inserted before and popped after; \<open>int_value\<close> says which cell value an int is.
\<close>

definition get_string_lines ::
  "'a collaborators \<Rightarrow> (int \<Rightarrow> 'a) \<Rightarrow> 'a table \<Rightarrow> bool \<Rightarrow> (error + string list) \<times> 'a table" where
  "get_string_lines E int_value t recalculate_width =
     (case (if serialno t \<and> ncol t > 0
            then columns_insert t 0
                   (map (\<lambda>k. Some (int_value (int k))) [1 ..< length (data t) + 1])
                   (Some (serialno_header t))
            else (None, t)) of
        (Some e, t1) \<Rightarrow> (Inl e, t1)
      | (None, t1) \<Rightarrow>
         (case (if recalculate_width \<or> sum_list (columns_width t1) = 0
                then calculate_width E t1 else Inr t1) of
            Inl e \<Rightarrow> (Inl e, t1)
          | Inr t2 \<Rightarrow>
             (case (if serialno t2 \<and> ncol t2 > 0
                    then (case list_get (columns_width t2) 0 of
                            Inl e \<Rightarrow> Inl e
                          | Inr w \<Rightarrow>
                              if w = 0
                              then Inr (t2\<lparr>columns_width :=
                                         (columns_width t2)
                                           [0 := max 4 (int (length (serialno_header t2)))
                                                   + 2 * default_padding t2]\<rparr>)
                              else Inr t2)
                    else Inr t2) of
                Inl e \<Rightarrow> (Inl e, t2)
              | Inr t3 \<Rightarrow>
                 (case body_lines E t3 of
                    Inl e \<Rightarrow> (Inl e, t3)
                  | Inr ls \<Rightarrow>
                      if serialno t3 \<and> ncol t3 > 0
                      then (case columns_pop t3 (KInt 0) of
                              (Inl e, t4) \<Rightarrow> (Inl e, t4)
                            | (Inr c, t4) \<Rightarrow> (Inr ls, t4))
                      else (Inr ls, t3)))))"

text \<open>\<^verbatim>\<open>BeautifulTable.get_string(recalculate_width)\<close>.\<close>

definition get_string ::
  "'a collaborators \<Rightarrow> (int \<Rightarrow> 'a) \<Rightarrow> 'a table \<Rightarrow> bool \<Rightarrow> (error + string) \<times> 'a table" where
  "get_string E int_value t recalculate_width =
     (if length (data t) = 0 then (Inr [], t)
      else
        (case get_string_lines E int_value t recalculate_width of
           (Inl e, t') \<Rightarrow> (Inl e, t')
         | (Inr string, t') \<Rightarrow> (Inr (join [CHR 0x0A] string), t')))"

text \<open>
  The table of the module's docstring: the headers "1st column" and "2nd column" and
  the rows \<open>(i, i * i)\<close>, here the first three, as their texts.
\<close>

definition squares :: "string table" where
  "squares =
     \<lparr>ncol = 2,
      data = [[Some ''0'', Some ''0''], [Some ''1'', Some ''1''], [Some ''2'', Some ''4'']],
      rows_header = [None, None, None],
      columns_header = [Some ''1st column'', Some ''2nd column''],
      columns_alignment = [ALIGN_CENTER, ALIGN_CENTER],
      columns_width = [0, 0], columns_padding_left = [1, 1], columns_padding_right = [1, 1],
      default_alignment = ALIGN_CENTER, default_padding = 1, maxwidth' = 80,
      left_border_char = ''|'', right_border_char = ''|'', column_separator_char = ''|'',
      lines = grid_lines, width_exceed_policy = WEP_WRAP, pad_character = '' '',
      header_alignment = None, serialno = False, serialno_header = ''SN''\<rparr>"

section \<open>Measuring and wrapping text\<close>







section \<open>Properties\<close>

subsection \<open>Pop on an empty table\<close>

text \<open>
  C7. On a table with no row, \<^verbatim>\<open>rows.pop(index)\<close> raises IndexError, and on a table with
  no column \<^verbatim>\<open>columns.pop(index)\<close> raises IndexError, for every index of a documented
  type (int or str); the table is the same afterwards.
\<close>

theorem pop_on_empty_raises_IndexError:
  "(data t = [] \<and> int_or_str k \<longrightarrow> rows_pop t k = (Inl IndexError, t)) \<and>
   (ncol t = 0 \<and> int_or_str k \<longrightarrow> columns_pop t k = (Inl IndexError, t))"
  by (cases k) (simp_all add: rows_pop_def columns_pop_def int_or_str_def)

theorem pop_on_empty_raises_IndexError_witness:
  "data empty_table = [] \<and> ncol empty_table = 0 \<and>
   int_or_str (KInt (- 1)) \<and> int_or_str (KStr ''a'') \<and>
   rows_pop empty_table (KInt (- 1)) = (Inl IndexError, empty_table) \<and>
   columns_pop empty_table (KInt (- 1)) = (Inl IndexError, empty_table) \<and>
   rows_pop empty_table (KStr ''a'') = (Inl IndexError, empty_table) \<and>
   columns_pop empty_table (KStr ''a'') = (Inl IndexError, empty_table)"
  using pop_on_empty_raises_IndexError [of empty_table "KInt (- 1)"]
    pop_on_empty_raises_IndexError [of empty_table "KStr ''a''"]
  by (simp add: empty_table_def int_or_str_def)

subsection \<open>Appending a row\<close>

lemma rows_header_reset: "rows_header (columns_reset_state t n) = rows_header t"
  by (simp add: columns_reset_state_def)

lemma list_insert_end: "list_insert (int (length xs)) x xs = xs @ [x]"
  by (simp add: list_insert_def)

lemma rows_header_rows_insert:
  "rows_header (snd (rows_insert t i row h)) = list_insert i h (rows_header t)"
  by (simp add: rows_insert_def Let_def rows_header_reset split: sum.splits)

text \<open>
  C9. \<^verbatim>\<open>rows.append(row, header)\<close> does what \<^verbatim>\<open>rows.append(row, None)\<close> does, whatever
  \<open>header\<close> is: the header inserted at position \<^verbatim>\<open>len(rows)\<close> is None, so that on a
  table with one header per row the row headers end with None afterwards.
\<close>

theorem rows_append_stores_None_header:
  "rows_append t row header = rows_append t row None \<and>
   rows_header (snd (rows_append t row header)) =
     list_insert (int (length (data t))) None (rows_header t) \<and>
   (length (rows_header t) = length (data t) \<longrightarrow>
      rows_header (snd (rows_append t row header)) = rows_header t @ [None])"
  by (auto simp add: rows_append_def rows_header_rows_insert list_insert_end [symmetric])

theorem rows_append_stores_None_header_witness:
  "length (rows_header two_rows) = length (data two_rows) \<and>
   rows_header (snd (rows_append two_rows [Some 7] (Some ''seven''))) = [None, None, None]"
proof -
  have len: "length (rows_header two_rows) = length (data two_rows)"
    by (simp add: two_rows_def)
  from rows_append_stores_None_header [of two_rows "[Some 7]" "Some ''seven''"] len
  have "rows_header (snd (rows_append two_rows [Some 7] (Some ''seven''))) =
          rows_header two_rows @ [None]"
    by blast
  moreover have "rows_header two_rows @ [None] = [None, None, None]"
    by (simp add: two_rows_def)
  ultimately show ?thesis
    using len by simp
qed

subsection \<open>Inserting a column that is too short\<close>

text \<open>
  In general: on a table with a column, inserting a column with fewer items than the
  table has rows never ends with ValueError and the table as it was. The roll-back
  starts at row \<^verbatim>\<open>column_length\<close>, where it either raises IndexError or removes a cell
  that the row had before.
\<close>

lemma insert_cells_short:
  "length column < length rows \<Longrightarrow>
     snd (insert_cells index rows column) = length column \<and>
     length (fst (insert_cells index rows column)) = length rows \<and>
     fst (insert_cells index rows column) ! length column = rows ! length column"
proof (induction rows arbitrary: column)
  case Nil
  then show ?case by simp
next
  case (Cons r rs)
  show ?case
  proof (cases column)
    case Nil
    then show ?thesis by simp
  next
    case (Cons x xs)
    with Cons.prems have "length xs < length rs" by simp
    from Cons.IH [OF this] Cons show ?thesis
      by (cases "insert_cells index rs xs") simp
  qed
qed

lemma pop_cell_other:
  "pop_cell index j rows = Inr rows' \<Longrightarrow> k \<noteq> j \<Longrightarrow>
     rows' ! k = rows ! k \<and> length rows' = length rows"
  by (auto simp add: pop_cell_def split: if_splits sum.splits)

lemma rollback_above:
  "rollback index j rows = (e, rows') \<Longrightarrow> j < k \<Longrightarrow>
     rows' ! k = rows ! k \<and> length rows' = length rows"
proof (induction j arbitrary: rows)
  case 0
  then show ?case
    using pop_cell_other [of index 0 rows _ k] by (auto split: sum.splits)
next
  case (Suc j)
  show ?case
  proof (cases "pop_cell index (Suc j) rows")
    case (Inl a)
    then show ?thesis using Suc.prems by simp
  next
    case (Inr rows1)
    then have r: "rollback index j rows1 = (e, rows')"
      using Suc.prems(1) by simp
    from Suc.IH [OF r] Suc.prems(2) pop_cell_other [OF Inr, of k]
    show ?thesis by simp
  qed
qed

lemma list_pop_length:
  "list_pop index r = Inr (x, r') \<Longrightarrow> Suc (length r') = length r"
  by (auto simp add: list_pop_def py_index_def Let_def split: if_splits)

lemma rollback_first:
  assumes "rollback index k rows = (e, rows')" and "k < length rows"
  shows "e = Some IndexError \<or> Suc (length (rows' ! k)) = length (rows ! k)"
proof (cases "list_pop index (rows ! k)")
  case (Inl a)
  then have "a = IndexError"
    by (auto simp add: list_pop_def py_index_def Let_def split: if_splits)
  with Inl have "pop_cell index k rows = Inl IndexError"
    using assms(2) by (simp add: pop_cell_def)
  then show ?thesis
    using assms(1) by (cases k) simp_all
next
  case (Inr p)
  obtain x r where p: "p = (x, r)" by (cases p)
  have pc: "pop_cell index k rows = Inr (rows[k := r])"
    using Inr p assms(2) by (simp add: pop_cell_def)
  have len: "Suc (length r) = length (rows ! k)"
    using list_pop_length [of index "rows ! k" x r] Inr p by simp
  show ?thesis
  proof (cases k)
    case 0
    then have "rows' = rows[k := r]"
      using assms(1) pc by simp
    then show ?thesis
      using assms(2) len by simp
  next
    case (Suc j)
    then have "rollback index j (rows[k := r]) = (e, rows')"
      using assms(1) pc by simp
    from rollback_above [OF this, of k] Suc assms(2) len
    show ?thesis by simp
  qed
qed

lemma columns_insert_short_never_rolls_back:
  assumes "0 < ncol t" and "length column < length (data t)"
  shows "columns_insert t index column header \<noteq> (Some ValueError, t)"
proof (cases "header = None")
  case True
  then show ?thesis
    using assms(1) by (simp add: columns_insert_def)
next
  case False
  let ?k = "length column"
  obtain d n where ic: "insert_cells index (data t) column = (d, n)"
    by (cases "insert_cells index (data t) column")
  from insert_cells_short [OF assms(2), of index] ic
  have n: "n = ?k" and ld: "length d = length (data t)" and dk: "d ! ?k = data t ! ?k"
    by simp_all
  obtain e d' where rb: "rollback index ?k d = (e, d')"
    by (cases "rollback index ?k d")
  have k: "?k < length d"
    using assms(2) ld by simp
  from rollback_first [OF rb k]
  have alt: "e = Some IndexError \<or> Suc (length (d' ! ?k)) = length (data t ! ?k)"
    using dk by simp
  have res: "columns_insert t index column header =
               (case e of Some e' \<Rightarrow> (Some e', t\<lparr>data := d'\<rparr>)
                | None \<Rightarrow> (Some ValueError, t\<lparr>data := d'\<rparr>))"
    using False assms ic n ld rb
    by (auto simp add: columns_insert_def Let_def split: option.splits)
  show ?thesis
  proof
    assume eq: "columns_insert t index column header = (Some ValueError, t)"
    with res have "e \<noteq> Some IndexError" and "data t = d'"
      by (auto split: option.splits dest: arg_cong [where f = data])
    with alt show False by auto
  qed
qed

lemma insert_cells_two_rows:
  "insert_cells 0 [[Some (1::int)], [Some 2]] [Some 9] = ([[Some 9, Some 1], [Some 2]], Suc 0)"
  by (simp add: list_insert_def)

lemma rollback_two_rows:
  "rollback 0 (Suc 0) [[Some 9, Some (1::int)], [Some 2]] = (None, [[Some 1], []])"
  by (simp add: pop_cell_def list_pop_def py_index_def)

text \<open>
  C1. Inserting the one-cell column (9) with header "b" before column 0 of the table of
  the two rows (1) and (2) raises ValueError, and leaves the second row without its
  cell: the roll-back loop starts at row \<^verbatim>\<open>column_length\<close>, which never got a new cell.
\<close>

theorem columns_insert_short_column_loses_a_cell:
  "columns_insert two_rows 0 [Some 9] (Some ''b'') =
     (Some ValueError, two_rows\<lparr>data := [[Some 1], []]\<rparr>)"
  unfolding columns_insert_def two_rows_def
  by (simp add: insert_cells_two_rows rollback_two_rows del: insert_cells.simps rollback.simps)

subsection \<open>Removing the last column\<close>

lemma bind_err_None:
  "bind_err r f = (None, t') \<Longrightarrow> \<exists>s. r = (None, s) \<and> f s = (None, t')"
  by (cases r) (auto simp add: bind_err_def split: option.splits)

lemma del_indices_all:
  "\<forall>i < length xs. int i \<in> set js \<Longrightarrow> del_indices js xs = []"
  by (auto simp add: del_indices_def filter_empty_conv dest!: set_zip_leftD)

lemma slice_indices_all: "slice_indices n None None None = Inr (map int [0 ..< n])"
  by (cases "n = 0") (auto simp add: slice_indices_def slice_bound_def py_range_def)

lemma list_delitem_all: "list_delitem (KSlice None None None) xs = Inr []"
  by (simp add: slice_indices_all del_indices_all)

lemma rows_delitem_all:
  "rows_delitem t (KSlice None None None) = (None, t\<lparr>data := [], rows_header := []\<rparr>)"
  by (simp add: rows_delitem_def base_delitem_def list_delitem_all del: list_delitem.simps)

lemma sync_ncol_clears:
  "sync_ncol t = (e, t') \<Longrightarrow> ncol t' = 0 \<Longrightarrow> e = None \<and> data t' = [] \<and> rows_header t' = []"
  by (auto simp add: sync_ncol_def Let_def rows_delitem_all split: if_splits)

lemma columns_delitem_clears:
  assumes "columns_delitem t k = (None, t')" and "ncol t' = 0"
  shows "data t' = [] \<and> rows_header t' = []"
proof -
  have "k \<noteq> KOther"
    using assms(1) by (auto simp add: columns_delitem_def)
  then have "columns_delitem t k =
         bind_err (del_alignment k t) (\<lambda>t.
         bind_err (del_width k t) (\<lambda>t.
         bind_err (del_padding_left k t) (\<lambda>t.
         bind_err (del_padding_right k t) (\<lambda>t.
         bind_err (del_cells k t) (\<lambda>t.
         bind_err (del_header k t) sync_ncol)))))"
    by (cases k) (simp_all add: columns_delitem_def)
  with assms(1) obtain s where "sync_ncol s = (None, t')"
    by (auto dest!: bind_err_None)
  then show ?thesis
    using assms(2) sync_ncol_clears by blast
qed

lemma columns_pop_clears:
  assumes "columns_pop t k = (Inr res, t')" and "ncol t' = 0"
  shows "data t' = [] \<and> rows_header t' = []"
proof -
  obtain e cs d where p: "pop_rows (base_pop (columns_header t) k) (data t) = (e, cs, d)"
    by (cases "pop_rows (base_pop (columns_header t) k) (data t)") auto
  let ?r = "bind_err (e, t\<lparr>data := d\<rparr>) (\<lambda>t.
                      bind_err (pop_alignment k t) (\<lambda>t.
                      bind_err (pop_width k t) (\<lambda>t.
                      bind_err (pop_padding_left k t) (\<lambda>t.
                      bind_err (pop_padding_right k t) (\<lambda>t.
                      bind_err (pop_header k t) sync_ncol)))))"
  have "?r = (None, t')"
    using assms(1) p
    by (cases k; cases ?r)
       (auto simp add: columns_pop_def split: if_splits option.splits prod.splits)
  then obtain s where "sync_ncol s = (None, t')"
    by (auto dest!: bind_err_None)
  then show ?thesis
    using assms(2) sync_ncol_clears by blast
qed

lemma columns_delitem_two_rows:
  "columns_delitem two_rows (KInt 0) = (None, two_rows_cleared)"
  unfolding columns_delitem_def two_rows_cleared_def two_rows_def
  by (simp add: bind_err_def del_alignment_def del_width_def del_padding_left_def
      del_padding_right_def del_cells_def del_header_def base_delitem_def py_index_def
      sync_ncol_def rows_delitem_all)

lemma columns_pop_two_rows:
  "columns_pop two_rows (KInt 0) = (Inr [Some 1, Some 2], two_rows_cleared)"
  unfolding columns_pop_def two_rows_cleared_def two_rows_def
  by (simp add: bind_err_def pop_alignment_def pop_width_def pop_padding_left_def
      pop_padding_right_def pop_header_def base_pop_def list_pop_def py_index_def
      sync_ncol_def rows_delitem_all)

text \<open>
  C6. When \<^verbatim>\<open>del columns[key]\<close> or \<^verbatim>\<open>columns.pop(key)\<close> returns and leaves no column,
  it leaves no row either (and no row header).
\<close>

theorem removing_last_column_clears_rows:
  "(columns_delitem t k = (None, t') \<and> ncol t' = 0 \<longrightarrow> data t' = [] \<and> rows_header t' = []) \<and>
   (columns_pop t k = (Inr res, t') \<and> ncol t' = 0 \<longrightarrow> data t' = [] \<and> rows_header t' = [])"
  using columns_delitem_clears columns_pop_clears by blast

theorem removing_last_column_clears_rows_witness:
  "columns_delitem two_rows (KInt 0) = (None, two_rows_cleared) \<and>
   columns_pop two_rows (KInt 0) = (Inr [Some 1, Some 2], two_rows_cleared) \<and>
   data two_rows \<noteq> [] \<and> ncol two_rows_cleared = 0 \<and>
   data two_rows_cleared = [] \<and> rows_header two_rows_cleared = []"
proof -
  have n: "ncol two_rows_cleared = 0" and d: "data two_rows \<noteq> []"
    by (simp_all add: two_rows_cleared_def two_rows_def)
  from removing_last_column_clears_rows
         [of two_rows "KInt 0" two_rows_cleared "[Some 1, Some 2]"]
       columns_delitem_two_rows n
  have "data two_rows_cleared = [] \<and> rows_header two_rows_cleared = []"
    by blast
  then show ?thesis
    using columns_delitem_two_rows columns_pop_two_rows n d by blast
qed

subsection \<open>Width allocation: arithmetic of the loops\<close>

lemma py_int_div_nonneg: "0 \<le> a \<Longrightarrow> 0 < b \<Longrightarrow> py_int_div a b = Inr (a div b)"
  by (cases "a = 0") (simp_all add: py_int_div_def)

lemma flag_loop_eq:
  assumes "0 < n" and "0 \<le> d"
  shows "flag_loop d n ws =
     Inr (sum_list (map (\<lambda>w. if w \<le> d div int n then w else 1) ws), map (\<lambda>w. w \<le> d div int n) ws)"
  using assms by (induction ws) (simp_all add: py_int_div_nonneg)

lemma temp_sum_le:
  assumes "1 \<le> (f::int)"
  shows "sum_list (map (\<lambda>w. if w \<le> f then w else 1) ws) \<le> int (length ws) * f"
  using assms by (induction ws) (auto simp add: algebra_simps)

lemma actual_space_eq:
  "sum_list ws - sum_list (map (\<lambda>w. if w \<le> f then w else 1) ws)
     = sum_list (map (\<lambda>w. if w \<le> (f::int) then 0 else w - 1) ws)"
  by (induction ws) auto

lemma sum_list_div_le:
  assumes "0 < (s::int)"
  shows "sum_list (map (\<lambda>a. a div s) as) \<le> sum_list as div s"
proof (induction as)
  case Nil
  then show ?case by simp
next
  case (Cons a as)
  have "0 \<le> (a mod s + sum_list as mod s) div s"
    using assms by (simp add: pos_imp_zdiv_nonneg_iff)
  then have "a div s + sum_list as div s \<le> (a + sum_list as) div s"
    by (simp add: div_add1_eq [of a "sum_list as" s])
  then show ?case using Cons by simp
qed


lemma set_dict_set: "set (dict_set k v al) \<subseteq> insert (k, v) (set al)"
  by (induction al) auto

lemma keys_dict_set: "fst ` set (dict_set k v al) = insert k (fst ` set al)"
  by (induction al) auto

lemma distinct_dict_set: "distinct (map fst al) \<Longrightarrow> distinct (map fst (dict_set k v al))"
proof (induction al)
  case Nil
  then show ?case by simp
next
  case (Cons p ps)
  then show ?case
    using keys_dict_set [of k v ps] by auto
qed

lemma length_dict_set: "length (dict_set k v al) \<le> Suc (length al)"
  by (induction al) auto

lemma dict_set_not_Nil: "dict_set k v al \<noteq> []"
  by (cases al) auto

lemma good_dict_set:
  "good_dict len sh \<Longrightarrow> 1 \<le> k \<Longrightarrow> v < len \<Longrightarrow> good_dict len (dict_set k v sh)"
  using set_dict_set [of k v sh] by (auto simp add: good_dict_def distinct_dict_set)

lemma shrink_loop_ok:
  assumes "0 \<le> A" and "1 \<le> f" and "\<forall>w \<in> set ws. \<not> w \<le> f \<longrightarrow> 0 < S"
    and "i + length ws \<le> len" and "good_dict len sh"
  shows "\<exists>sh'. shrink_loop A S len i (zip ws (map (\<lambda>w. w \<le> f) ws)) sh
                 = Inr (map (shrunk A S f) ws, sh') \<and>
               good_dict len sh' \<and> length sh' \<le> length sh + length ws"
  using assms
proof (induction ws arbitrary: i sh)
  case Nil
  then show ?case by simp
next
  case (Cons w ws)
  have i: "i < len" and i': "Suc i + length ws \<le> len"
    using Cons.prems(4) by simp_all
  have S': "\<forall>w \<in> set ws. \<not> w \<le> f \<longrightarrow> 0 < S"
    using Cons.prems(3) by simp
  show ?case
  proof (cases "w \<le> f")
    case True
    from Cons.IH [OF Cons.prems(1,2) S' i' Cons.prems(5)]
    obtain sh' where
      "shrink_loop A S len (Suc i) (zip ws (map (\<lambda>w. w \<le> f) ws)) sh
         = Inr (map (shrunk A S f) ws, sh')"
      "good_dict len sh'" "length sh' \<le> length sh + length ws"
      by blast
    then show ?thesis
      using True i by (simp add: shrunk_def)
  next
    case False
    then have S: "0 < S" and w: "1 \<le> w - 1"
      using Cons.prems(2,3) by simp_all
    have q: "py_int_div ((w - 1) * A) S = Inr (((w - 1) * A) div S)"
      using S w Cons.prems(1) by (simp add: py_int_div_nonneg)
    have q0: "0 \<le> ((w - 1) * A) div S"
      using S w Cons.prems(1) by (simp add: pos_imp_zdiv_nonneg_iff)
    show ?thesis
    proof (cases "1 + ((w - 1) * A) div S < w")
      case True
      have g: "good_dict len (dict_set (1 + ((w - 1) * A) div S) i sh)"
        using good_dict_set [OF Cons.prems(5)] q0 i by simp
      from Cons.IH [OF Cons.prems(1,2) S' i' g]
      obtain sh' where
        "shrink_loop A S len (Suc i) (zip ws (map (\<lambda>w. w \<le> f) ws))
            (dict_set (1 + ((w - 1) * A) div S) i sh)
           = Inr (map (shrunk A S f) ws, sh')"
        "good_dict len sh'"
        "length sh' \<le> length (dict_set (1 + ((w - 1) * A) div S) i sh) + length ws"
        by blast
      then show ?thesis
        using True False i q length_dict_set [of "1 + ((w - 1) * A) div S" i sh]
        by (simp add: shrunk_def Let_def)
    next
      case nt: False
      from Cons.IH [OF Cons.prems(1,2) S' i' Cons.prems(5)]
      obtain sh' where
        "shrink_loop A S len (Suc i) (zip ws (map (\<lambda>w. w \<le> f) ws)) sh
           = Inr (map (shrunk A S f) ws, sh')"
        "good_dict len sh'" "length sh' \<le> length sh + length ws"
        by blast
      then show ?thesis
        using nt False i q by (simp add: shrunk_def Let_def)
    qed
  qed
qed


lemma sum_shrunk_le1:
  "sum_list (map (shrunk A S f) ws)
     \<le> sum_list (map (\<lambda>w. if w \<le> f then w else 1) ws)
       + sum_list (map (\<lambda>a. a div S) (map (\<lambda>w. if w \<le> f then 0 else (w - 1) * A) ws))"
  by (induction ws) (auto simp add: shrunk_def)

lemma sum_scaled:
  "sum_list (map (\<lambda>w. if w \<le> f then 0 else (w - 1) * A) ws)
     = A * sum_list (map (\<lambda>w. if w \<le> (f::int) then 0 else w - 1) ws)"
  by (induction ws) (auto simp add: algebra_simps)

lemma sum_shrunk_le:
  assumes "0 \<le> A"
    and S: "S = sum_list (map (\<lambda>w. if w \<le> f then 0 else w - 1) ws)"
    and "0 \<le> S"
  shows "sum_list (map (shrunk A S f) ws)
           \<le> sum_list (map (\<lambda>w. if w \<le> f then w else 1) ws) + A"
proof -
  let ?g = "map (\<lambda>w. if w \<le> f then 0 else (w - 1) * A) ws"
  have "sum_list (map (\<lambda>a. a div S) ?g) \<le> A"
  proof (cases "S = 0")
    case True
    then show ?thesis using assms(1) by (simp add: comp_def)
  next
    case False
    then have "0 < S" using assms(3) by simp
    then have "sum_list (map (\<lambda>a. a div S) ?g) \<le> sum_list ?g div S"
      by (rule sum_list_div_le)
    also have "sum_list ?g = A * S"
      by (simp only: sum_scaled S)
    also have "A * S div S = A"
      using False by simp
    finally show ?thesis .
  qed
  then show ?thesis
    using sum_shrunk_le1 [of A S f ws] by linarith
qed

lemma actual_space_nonneg:
  "1 \<le> f \<Longrightarrow> 0 \<le> sum_list (map (\<lambda>w. if w \<le> (f::int) then 0 else w - 1) ws)"
  by (induction ws) auto

lemma actual_space_pos:
  "1 \<le> f \<Longrightarrow> w \<in> set ws \<Longrightarrow> \<not> w \<le> f \<Longrightarrow>
     0 < sum_list (map (\<lambda>w. if w \<le> (f::int) then 0 else w - 1) ws)"
proof (induction ws)
  case Nil
  then show ?case by simp
next
  case (Cons a ws)
  then show ?case
    using actual_space_nonneg [of f ws] by (cases "w = a") auto
qed

lemma sum_list_update_add:
  "i < length ws \<Longrightarrow> sum_list (ws[i := ws ! i + e]) = sum_list ws + (e::int)"
proof (induction ws arbitrary: i)
  case Nil
  then show ?case by simp
next
  case (Cons a ws)
  then show ?case by (cases i) auto
qed

lemma divide_loop_sum:
  assumes "divide_loop B extra S sh pairs ws = Inr ws'"
    and "pairs \<noteq> []"
    and "int (fst (last pairs)) = int (length sh) - 1"
  shows "sum_list ws' = B"
  using assms
proof (induction pairs arbitrary: extra ws)
  case Nil
  then show ?case by simp
next
  case (Cons p rest)
  obtain i width where p: "p = (i, width)" by (cases p)
  from Cons.prems(1) p obtain index extra_width where
    idx: "map_of sh width = Some index" and
    ew: "py_int_div (width * extra) S = Inr extra_width" and
    i: "i < length ws"
    by (auto split: option.splits sum.splits if_splits)
  let ?ws1 = "ws[i := ws ! i + extra_width]"
  let ?e = "B - sum_list ?ws1"
  let ?ws2 = "?ws1[index := ?ws1 ! index + ?e]"
  show ?case
  proof (cases "int i = int (length sh) - 1")
    case True
    with Cons.prems(1) p idx ew i have
      index: "index < length ?ws1" and
      r: "divide_loop B ?e S sh rest ?ws2 = Inr ws'"
      by (auto simp add: Let_def split: if_splits)
    show ?thesis
    proof (cases "rest = []")
      case rn: True
      with r have "ws' = ?ws2" by simp
      then show ?thesis
        using sum_list_update_add [OF index, of ?e] by simp
    next
      case False
      with Cons.prems(3) have "int (fst (last rest)) = int (length sh) - 1" by simp
      from Cons.IH [OF r False this] show ?thesis .
    qed
  next
    case False
    with Cons.prems(1) p idx ew i have
      r: "divide_loop B extra S sh rest ?ws1 = Inr ws'"
      by (auto simp add: Let_def)
    from False Cons.prems(3) p have ne: "rest \<noteq> []" by auto
    with Cons.prems(3) have "int (fst (last rest)) = int (length sh) - 1" by simp
    from Cons.IH [OF r ne this] show ?thesis .
  qed
qed

lemma divide_loop_ok:
  assumes "S \<noteq> 0"
    and "\<forall>(i, width) \<in> set pairs. i < length ws \<and> (\<exists>index. map_of sh width = Some index \<and> index < length ws)"
  shows "\<exists>ws'. divide_loop B extra S sh pairs ws = Inr ws' \<and> length ws' = length ws"
  using assms
proof (induction pairs arbitrary: extra ws)
  case Nil
  then show ?case by simp
next
  case (Cons p rest)
  obtain i width where p: "p = (i, width)" by (cases p)
  from Cons.prems(2) p obtain index where
    i: "i < length ws" and idx: "map_of sh width = Some index" and index: "index < length ws"
    by auto
  obtain q where q: "py_int_div (width * extra) S = Inr q"
    using Cons.prems(1) by (simp add: py_int_div_def)
  let ?ws1 = "ws[i := ws ! i + q]"
  let ?e = "B - sum_list ?ws1"
  let ?ws2 = "?ws1[index := ?ws1 ! index + ?e]"
  have r1: "\<forall>(i, width) \<in> set rest. i < length ?ws1 \<and>
              (\<exists>index. map_of sh width = Some index \<and> index < length ?ws1)"
    using Cons.prems(2) by auto
  have r2: "\<forall>(i, width) \<in> set rest. i < length ?ws2 \<and>
              (\<exists>index. map_of sh width = Some index \<and> index < length ?ws2)"
    using Cons.prems(2) by auto
  have 1: "\<exists>ws'. divide_loop B extra S sh rest ?ws1 = Inr ws' \<and> length ws' = length ?ws1"
    by (rule Cons.IH [OF Cons.prems(1) r1])
  have 2: "\<exists>ws'. divide_loop B ?e S sh rest ?ws2 = Inr ws' \<and> length ws' = length ?ws2"
    by (rule Cons.IH [OF Cons.prems(1) r2])
  show ?case
    using 1 2 p i idx index q by (auto simp add: Let_def)
qed


lemma fst_last_enumerate:
  assumes "xs \<noteq> []"
  shows "fst (last (zip [0 ..< length xs] xs)) = length xs - 1"
proof -
  have "zip [0 ..< length xs] xs \<noteq> []"
    using assms by (cases xs) (simp_all add: upt_rec)
  then have "last (zip [0 ..< length xs] xs) = zip [0 ..< length xs] xs ! (length xs - 1)"
    by (simp add: last_conv_nth)
  then show ?thesis
    using assms by simp
qed

lemma good_dict_lookup:
  assumes "good_dict n sh" and "k \<in> set (map fst sh)"
  shows "\<exists>index. map_of sh k = Some index \<and> index < n \<and> 1 \<le> k"
proof -
  from assms(2) obtain v where "map_of sh k = Some v"
    by (cases "map_of sh k") (auto simp add: map_of_eq_None_iff)
  moreover from this have "(k, v) \<in> set sh" by (rule map_of_SomeD)
  ultimately show ?thesis
    using assms(1) by (auto simp add: good_dict_def)
qed

lemma keys_sum_ge_length:
  "\<forall>k \<in> set ks. 1 \<le> (k::int) \<Longrightarrow> int (length ks) \<le> sum_list ks"
  by (induction ks) auto

lemma keys_sum_pos:
  assumes "\<forall>k \<in> set ks. 1 \<le> (k::int)" and "ks \<noteq> []"
  shows "0 < sum_list ks"
  using keys_sum_ge_length [OF assms(1)] assms(2) by (cases ks) auto

lemma divide_remaining_ok:
  assumes "good_dict n sh" and "length sh \<le> length ws" and "n \<le> length ws"
    and "sum_list ws \<le> B"
  shows "\<exists>ws'. divide_remaining B sh ws = Inr ws' \<and> length ws' = length ws \<and> sum_list ws' \<le> B"
proof (cases "sh = [] \<or> \<not> 0 < B - sum_list ws")
  case True
  then show ?thesis
    using assms(4) by (auto simp add: divide_remaining_def Let_def)
next
  case False
  let ?keys = "map fst sh"
  let ?pairs = "zip [0 ..< length sh] (sort ?keys)"
  let ?S = "sum_list ?keys"
  have ne: "sort ?keys \<noteq> []"
    using False by (metis length_sort length_map length_0_conv)
  have S: "?S \<noteq> 0"
    using keys_sum_pos [of ?keys] good_dict_lookup [OF assms(1)] False by fastforce
  have cond: "\<forall>(i, width) \<in> set ?pairs. i < length ws \<and>
          (\<exists>index. map_of sh width = Some index \<and> index < length ws)"
  proof clarify
    fix i width assume "(i, width) \<in> set ?pairs"
    then have "i < length sh" and "width \<in> set ?keys"
      by (auto dest: set_zip_leftD set_zip_rightD)
    then show "i < length ws \<and> (\<exists>index. map_of sh width = Some index \<and> index < length ws)"
      using good_dict_lookup [OF assms(1), of width] assms(2,3) by fastforce
  qed
  from divide_loop_ok [OF S cond] obtain ws' where
    ws': "divide_loop B (B - sum_list ws) ?S sh ?pairs ws = Inr ws'" "length ws' = length ws"
    by blast
  have "length ?pairs = length sh"
    by simp
  then have pn: "?pairs \<noteq> []"
    using False by (metis length_0_conv)
  have "fst (last ?pairs) = length sh - 1"
    using fst_last_enumerate [OF ne] by simp
  moreover have "0 < length sh"
    using False by simp
  then have "int (length sh - 1) = int (length sh) - 1"
    by (cases "length sh") simp_all
  ultimately have "int (fst (last ?pairs)) = int (length sh) - 1"
    by (simp only:)
  from divide_loop_sum [OF ws'(1) pn this] have "sum_list ws' = B" .
  then show ?thesis
    using ws' False by (simp add: divide_remaining_def Let_def)
qed

lemma fair_share_ge1:
  assumes "0 < n" and "int n \<le> d"
  shows "1 \<le> d div int n" and "int n * (d div int n) \<le> d"
proof -
  show "1 \<le> d div int n"
    using zdiv_mono1 [of "int n" d "int n"] assms by simp
  have "int n * (d div int n) = d - d mod int n"
    by (simp add: minus_mod_eq_mult_div [symmetric] mult.commute)
  then show "int n * (d div int n) \<le> d"
    using assms by simp
qed

lemma allocate_ok:
  assumes n: "n = length mw" and "0 < n" and "int n \<le> d" and old: "length old = n"
  shows "\<exists>ws. allocate d n mw old = Inr ws \<and> length ws = n \<and> sum_list ws \<le> d"
proof -
  let ?f = "d div int n"
  let ?T = "sum_list (map (\<lambda>w. if w \<le> ?f then w else 1) mw)"
  let ?A = "d - ?T"
  let ?S = "sum_list mw - ?T"
  have f: "1 \<le> ?f" and nf: "int n * ?f \<le> d"
    using fair_share_ge1 [OF assms(2,3)] by simp_all
  have fl: "flag_loop d n mw = Inr (?T, map (\<lambda>w. w \<le> ?f) mw)"
    using flag_loop_eq [of n d mw] assms(2,3) by simp
  have "?T \<le> int (length mw) * ?f"
    by (rule temp_sum_le [OF f])
  then have A: "0 \<le> ?A"
    using nf n by simp
  have S: "?S = sum_list (map (\<lambda>w. if w \<le> ?f then 0 else w - 1) mw)"
    by (rule actual_space_eq)
  have S0: "0 \<le> ?S"
    unfolding S by (rule actual_space_nonneg [OF f])
  have Spos: "\<forall>w \<in> set mw. \<not> w \<le> ?f \<longrightarrow> 0 < ?S"
    unfolding S using actual_space_pos [OF f] by blast
  have "good_dict n []"
    by (simp add: good_dict_def)
  from shrink_loop_ok [OF A f Spos _ this, of 0] n
  obtain sh where
    sl: "shrink_loop ?A ?S n 0 (zip mw (map (\<lambda>w. w \<le> ?f) mw)) [] = Inr (map (shrunk ?A ?S ?f) mw, sh)"
    and g: "good_dict n sh" and len: "length sh \<le> length mw"
    by auto
  let ?ws = "map (shrunk ?A ?S ?f) mw"
  have sum: "sum_list ?ws \<le> d"
    using sum_shrunk_le [OF A S S0] by simp
  from divide_remaining_ok [OF g _ _ sum] len n
  obtain ws' where "divide_remaining d sh ?ws = Inr ws'" "length ws' = n" "sum_list ws' \<le> d"
    by auto
  then show ?thesis
    using fl sl old n by (simp add: allocate_def Let_def)
qed

lemma allocate_empty: "allocate d 0 [] [] = Inr []"
  by (simp add: allocate_def divide_remaining_def)


lemma header_widths_ok:
  "length hdr \<le> length mw \<Longrightarrow>
     \<exists>ws. header_widths E hdr mw = Inr ws \<and> length ws = length mw"
proof (induction hdr arbitrary: mw)
  case Nil
  then show ?case by simp
next
  case (Cons h hdr)
  then obtain m mw' where mw: "mw = m # mw'" by (cases mw) auto
  with Cons.prems have "length hdr \<le> length mw'" by simp
  from Cons.IH [OF this] show ?case
    using mw by auto
qed

lemma data_widths_ok:
  "length cols \<le> length mw \<Longrightarrow>
     \<exists>ws. data_widths E cols mw = Inr ws \<and> length ws = length mw"
proof (induction cols arbitrary: mw)
  case Nil
  then show ?case by simp
next
  case (Cons c cols)
  then obtain m mw' where mw: "mw = m # mw'" by (cases mw) auto
  with Cons.prems have "length cols \<le> length mw'" by simp
  from Cons.IH [OF this] show ?case
    using mw by auto
qed

lemma fold_min_le: "fold (\<lambda>row m. min m (length row)) rs (m0::nat) \<le> m0"
proof (induction rs arbitrary: m0)
  case Nil
  then show ?case by simp
next
  case (Cons r rs)
  have "fold (\<lambda>row m. min m (length row)) rs (min m0 (length r)) \<le> min m0 (length r)"
    by (rule Cons.IH)
  then show ?case by simp
qed

lemma length_zip_star:
  "list_all (\<lambda>r. length r = n) rows \<Longrightarrow> length (zip_star rows) \<le> n"
  using fold_min_le by (cases rows) (auto simp add: zip_star_def)

lemma pad_widths_ok:
  assumes "wf_table t"
  shows "pad_widths t =
           Inr (map (\<lambda>i. columns_padding_left t ! i + columns_padding_right t ! i) [0 ..< ncol t])"
  using assms by (simp add: pad_widths_def wf_table_def)

lemma sum_list_add_pads:
  "length ws = length ps \<Longrightarrow>
     sum_list (map (\<lambda>(w, p). w + p) (zip ws ps)) = sum_list ws + (sum_list ps :: int)"
  by (induction ws ps rule: list_induct2) auto

lemma sum_list_plus_one:
  "sum_list (map (\<lambda>i. 1 + f i + g i) [0 ..< n]) = int n + sum_list (map (\<lambda>i. f i + g i) [0 ..< n])"
  by (induction n) auto

lemma calculate_width_steps:
  assumes wf: "wf_table t" and n: "0 < ncol t"
  shows "\<exists>mw a. natural_widths E t = Inr mw \<and> length mw = ncol t \<and>
          allocate (max (maxwidth' t) (min_feasible_width E t)
                      - (min_feasible_width E t - int (ncol t)))
            (ncol t) mw (columns_width t) = Inr a \<and>
          length a = ncol t \<and>
          sum_list a \<le> max (maxwidth' t) (min_feasible_width E t)
                          - (min_feasible_width E t - int (ncol t)) \<and>
          calculate_width E t =
            Inr (t\<lparr>maxwidth' := max (maxwidth' t) (min_feasible_width E t),
                   columns_width :=
                     map (\<lambda>(w, p). w + p)
                       (zip a (map (\<lambda>i. columns_padding_left t ! i + columns_padding_right t ! i)
                                  [0 ..< ncol t]))\<rparr>)"
proof -
  let ?n = "ncol t"
  let ?pads = "map (\<lambda>i. columns_padding_left t ! i + columns_padding_right t ! i) [0 ..< ?n]"
  let ?offset = "offset_of E t ?pads"
  let ?m = "max (maxwidth' t) (?offset + int ?n)"
  have off: "?offset = borders_width E t + sum_list ?pads"
    using n by (simp add: offset_of_def table_width_def borders_width_def)
  have mf: "min_feasible_width E t = ?offset + int ?n"
    unfolding off min_feasible_width_def sum_list_plus_one by simp
  have pads: "pad_widths t = Inr ?pads"
    by (rule pad_widths_ok [OF wf])
  have "length (columns_header t) \<le> length (replicate ?n (0::int))"
    using wf by (simp add: wf_table_def)
  from header_widths_ok [OF this] obtain hw where
    hw: "header_widths E (columns_header t) (replicate ?n 0) = Inr hw" "length hw = ?n"
    by auto
  have "length (zip_star (data t)) \<le> length hw"
    using length_zip_star [of ?n "data t"] wf hw(2) by (simp add: wf_table_def)
  from data_widths_ok [OF this] obtain mw where
    mw0: "data_widths E (zip_star (data t)) hw = Inr mw" and mwl: "length mw = ?n"
    using hw(2) by auto
  have mw: "natural_widths E t = Inr mw" "length mw = ?n"
    using hw(1) mw0 mwl by (simp_all add: natural_widths_def)
  have old: "length (columns_width t) = ?n"
    using wf by (simp add: wf_table_def)
  have "int ?n \<le> ?m - ?offset"
    by simp
  from allocate_ok [OF mw(2) [symmetric] n this old] obtain a where
    a: "allocate (?m - ?offset) ?n mw (columns_width t) = Inr a" "length a = ?n"
      "sum_list a \<le> ?m - ?offset"
    by blast
  have "map (\<lambda>(w, p). w + p) (zip (take ?n a) ?pads) @ drop ?n a
          = map (\<lambda>(w, p). w + p) (zip a ?pads)"
    using a(2) by simp
  then have c: "calculate_width E t =
      Inr (t\<lparr>maxwidth' := ?m, columns_width := map (\<lambda>(w, p). w + p) (zip a ?pads)\<rparr>)"
    using pads mw(1) a(1) by (simp add: calculate_width_def Let_def)
  have e: "?offset = min_feasible_width E t - int ?n"
    using mf by simp
  show ?thesis
    using mw a c unfolding e [symmetric] mf [symmetric]
    by (intro exI [of _ mw] exI [of _ a]) (simp only: simp_thms)
qed

lemma calculate_width_ok:
  assumes wf: "wf_table t" and n: "0 < ncol t"
  shows "\<exists>ws. calculate_width E t =
            Inr (t\<lparr>maxwidth' := max (maxwidth' t) (min_feasible_width E t), columns_width := ws\<rparr>) \<and>
          length ws = ncol t \<and>
          sum_list ws + borders_width E t \<le> max (maxwidth' t) (min_feasible_width E t)"
proof -
  let ?pads = "map (\<lambda>i. columns_padding_left t ! i + columns_padding_right t ! i) [0 ..< ncol t]"
  let ?M = "max (maxwidth' t) (min_feasible_width E t)"
  from calculate_width_steps [OF wf n, of E] obtain mw a where
    a: "length a = ncol t" "sum_list a \<le> ?M - (min_feasible_width E t - int (ncol t))" and
    c: "calculate_width E t =
          Inr (t\<lparr>maxwidth' := ?M, columns_width := map (\<lambda>(w, p). w + p) (zip a ?pads)\<rparr>)"
    by blast
  let ?W = "map (\<lambda>(w, p). w + p) (zip a ?pads)"
  have "sum_list ?W = sum_list a + sum_list ?pads"
    by (rule sum_list_add_pads) (simp add: a(1))
  moreover have "min_feasible_width E t - int (ncol t) = borders_width E t + sum_list ?pads"
    unfolding min_feasible_width_def sum_list_plus_one by simp
  ultimately have "sum_list ?W + borders_width E t \<le> ?M"
    using a(2) by simp
  moreover have "length ?W = ncol t"
    using a(1) by simp
  ultimately show ?thesis
    using c by blast
qed

lemma zip_star_no_columns:
  "list_all (\<lambda>r. length r = 0) rows \<Longrightarrow> zip_star rows = []"
  using length_zip_star [of 0 rows] by simp

lemma calculate_width_no_columns:
  assumes wf: "wf_table t" and n: "ncol t = 0"
  shows "calculate_width E t = Inr (t\<lparr>maxwidth' := max (maxwidth' t) 0, columns_width := []\<rparr>)"
proof -
  have "columns_header t = []" "columns_width t = []" "zip_star (data t) = []"
    using wf n zip_star_no_columns [of "data t"] by (simp_all add: wf_table_def)
  then show ?thesis
    using n
    by (simp add: calculate_width_def pad_widths_def offset_of_def table_width_def
        natural_widths_def allocate_def divide_remaining_def)
qed

lemma allocate_old:
  "length old = length mw \<Longrightarrow> length old' = length mw \<Longrightarrow>
     allocate d n mw old = allocate d n mw old'"
  by (simp add: allocate_def split: sum.splits prod.splits)

lemma natural_widths_update:
  "natural_widths E (t\<lparr>maxwidth' := m, columns_width := w\<rparr>) = natural_widths E t"
  by (simp add: natural_widths_def cong: sum.case_cong)

lemma calculate_width_idem:
  assumes wf: "wf_table t" and c: "calculate_width E t = Inr t'"
  shows "calculate_width E t' = Inr t'"
proof (cases "ncol t = 0")
  case True
  from calculate_width_no_columns [OF wf True, of E] c
  have t': "t' = t\<lparr>maxwidth' := max (maxwidth' t) 0, columns_width := []\<rparr>"
    by simp
  then have "wf_table t'" "ncol t' = 0"
    using wf True by (simp_all add: wf_table_def)
  from calculate_width_no_columns [OF this, of E] show ?thesis
    by (simp add: t')
next
  case False
  then have n: "0 < ncol t" by simp
  let ?n = "ncol t"
  let ?pads = "map (\<lambda>i. columns_padding_left t ! i + columns_padding_right t ! i) [0 ..< ?n]"
  let ?M = "max (maxwidth' t) (min_feasible_width E t)"
  let ?off = "min_feasible_width E t - int ?n"
  from calculate_width_steps [OF wf n, of E] obtain mw a where
    mw: "natural_widths E t = Inr mw" "length mw = ?n" and
    a: "allocate (?M - ?off) ?n mw (columns_width t) = Inr a" "length a = ?n" and
    c': "calculate_width E t =
          Inr (t\<lparr>maxwidth' := ?M, columns_width := map (\<lambda>(w, p). w + p) (zip a ?pads)\<rparr>)"
    by blast
  let ?W = "map (\<lambda>(w, p). w + p) (zip a ?pads)"
  have t': "t' = t\<lparr>maxwidth' := ?M, columns_width := ?W\<rparr>"
    using c c' by simp
  have lW: "length ?W = ?n"
    using a(2) by simp
  have wf': "wf_table t'"
    using wf lW by (simp add: t' wf_table_def)
  have pads: "pad_widths t' = Inr ?pads"
    using pad_widths_ok [OF wf'] by (simp add: t')
  have off: "?off = borders_width E t + sum_list ?pads"
    unfolding min_feasible_width_def sum_list_plus_one by simp
  have tw: "offset_of E t' ?pads = ?off"
    using n unfolding off by (simp add: t' offset_of_def table_width_def borders_width_def)
  have n': "ncol t' = ?n" and mx: "maxwidth' t' = ?M"
    by (simp_all add: t')
  have nw: "natural_widths E t' = Inr mw"
    using mw(1) by (simp add: t' natural_widths_update)
  have "length (columns_width t) = ?n"
    using wf by (simp add: wf_table_def)
  then have al: "allocate (?M - ?off) ?n mw (columns_width t') = Inr a"
    using allocate_old [of "columns_width t'" mw "columns_width t" "?M - ?off" ?n] a(1) lW mw(2)
    by (simp add: t')
  have W: "map (\<lambda>(w, p). w + p) (zip (take ?n a) ?pads) @ drop ?n a = ?W"
    using a(2) by simp
  have "calculate_width E t' = Inr (t'\<lparr>maxwidth' := ?M, columns_width := ?W\<rparr>)"
    by (simp add: calculate_width_def pads Let_def tw n' mx nw al W)
  then show ?thesis
    by (simp add: t')
qed

subsection \<open>Width allocation on the example table\<close>

lemma flag_loop_narrow: "flag_loop 8 3 [3, 6, 5] = Inr (3, [False, False, False])"
  by (simp add: py_int_div_def)

lemma shrink_loop_narrow: "shrink_loop 5 11 3 0 (zip [3, 6, 5] [False, False, False]) [] =
    Inr ([1, 3, 2], [(1, 0), (3, 1), (2, 2)])"
  by (simp add: py_int_div_def Let_def)

lemma divide_remaining_narrow: "divide_remaining 8 [(1, 0), (3, Suc 0), (2, Suc (Suc 0))] [1, 3, 2] = Inr [1, 4, 3]"
  by (simp add: divide_remaining_def py_int_div_def Let_def upt_rec)

lemma allocate_narrow: "allocate 8 3 [3, 6, 5] [0, 0, 0] = Inr [1, 4, 3]"
  by (simp add: allocate_def divide_remaining_narrow py_int_div_def Let_def)

lemma natural_widths_narrow: "natural_widths plain narrow_table = Inr [3, 6, 5]"
  by (simp add: natural_widths_def narrow_table_def plain_def zip_star_def widest_line_def pre_process_def eval_nat_numeral)

lemma calculate_width_narrow: "calculate_width plain narrow_table = Inr (narrow_table\<lparr>columns_width := [3, 6, 5]\<rparr>)"
proof -
  have p: "pad_widths narrow_table = Inr [2, 2, 2]"
    by (simp add: pad_widths_def narrow_table_def eval_nat_numeral)
  have w: "offset_of plain narrow_table [2, 2, 2] = 10"
    by (simp add: offset_of_def table_width_def narrow_table_def plain_def)
  have f: "ncol narrow_table = 3" "columns_width narrow_table = [0, 0, 0]"
      "maxwidth' narrow_table = 18"
    by (simp_all add: narrow_table_def)
  have m: "narrow_table\<lparr>maxwidth' := 18, columns_width := [3, 6, 5]\<rparr>
             = narrow_table\<lparr>columns_width := [3, 6, 5]\<rparr>"
    by (simp add: narrow_table_def)
  show ?thesis
    by (simp add: calculate_width_def p w f natural_widths_narrow allocate_narrow m)
qed

lemma wf_narrow_table: "wf_table narrow_table"
  by (simp add: wf_table_def narrow_table_def)


subsection \<open>Width allocation: the claims\<close>



text \<open>
  C2. On a table that satisfies the invariant, \<^verbatim>\<open>_calculate_width\<close> returns, and a
  second call on the table it left returns that same table: the same widths (and the
  same \<^verbatim>\<open>_maxwidth\<close>).
\<close>

theorem calculate_width_idempotent:
  assumes "wf_table t"
  shows "\<exists>t'. calculate_width E t = Inr t' \<and> calculate_width E t' = Inr t'"
proof -
  have "\<exists>t'. calculate_width E t = Inr t'"
  proof (cases "ncol t = 0")
    case True
    then show ?thesis
      using calculate_width_no_columns [OF assms] by blast
  next
    case False
    then show ?thesis
      using calculate_width_ok [OF assms, of E] by auto
  qed
  then show ?thesis
    using calculate_width_idem [OF assms] by blast
qed

theorem calculate_width_idempotent_witness:
  "wf_table narrow_table \<and>
   calculate_width plain narrow_table = Inr (narrow_table\<lparr>columns_width := [3, 6, 5]\<rparr>) \<and>
   calculate_width plain (narrow_table\<lparr>columns_width := [3, 6, 5]\<rparr>)
     = Inr (narrow_table\<lparr>columns_width := [3, 6, 5]\<rparr>)"
  using calculate_width_idempotent [OF wf_narrow_table, of plain]
  by (simp add: wf_narrow_table calculate_width_narrow)

text \<open>
  C3. Three columns of natural widths 3, 6 and 5 in a budget of 8 are all shrunk, to
  1, 3 and 2, which leaves an extra of 2. The widths end as 1, 4 and 3: the share
  \<open>floor(3 * 2 / 6) = 1\<close> of the column shrunk to 3 (column 1) is added to column 2, the
  position of 3 among the sorted shrunk widths, and column 1 only gets the residual.
  Each shrunk column getting its own share would give 1, 5 and 2. The sum is 8 either
  way.
\<close>

theorem remaining_space_goes_to_sorted_position:
  "shrink_loop 5 11 3 0 (zip [3, 6, 5] [False, False, False]) [] =
     Inr ([1, 3, 2], [(1, 0), (3, 1), (2, 2)]) \<and>
   allocate 8 3 [3, 6, 5] [0, 0, 0] = Inr [1, 4, 3] \<and>
   calculate_width plain narrow_table = Inr (narrow_table\<lparr>columns_width := [3, 6, 5]\<rparr>)"
  using shrink_loop_narrow allocate_narrow calculate_width_narrow by simp

subsection \<open>Horizontal lines\<close>





































subsection \<open>Clamping with an ellipsis\<close>

lemma clamp_string_wide:
  assumes "printable_width t i = Inr w" and "w < int (termwidth E s)"
  shows "clamp_string E t s i d =
           (if 0 \<le> w - int (length d)
            then (case textwrap E s (w - int (length d)) of
                    [] \<Rightarrow> Inl IndexError | l # ls \<Rightarrow> Inr (l @ d))
            else Inr (slice_to w d))"
  using assms by (simp add: clamp_string_def)

lemma first_chunk:
  assumes "k < length s" and "0 < k"
  shows "\<exists>ls. chunks (length s) k s = take k s # ls"
  using assms by (cases "length s") auto

lemma plain_wrap_first:
  assumes "k < int (length s)"
  shows "\<exists>ls. textwrap plain s k = take (nat k) s # ls"
proof (cases "k \<le> 0")
  case True
  then show ?thesis by (simp add: plain_def)
next
  case False
  then have "nat k < length s" "0 < nat k"
    using assms by simp_all
  from first_chunk [OF this] show ?thesis
    using False by (simp add: plain_def)
qed

lemma plain_clamp_exact_width:
  assumes "printable_width t i = Inr w" and "w < int (length s)" and "3 \<le> w"
  shows "clamp_string plain t s i ''...'' = Inr (take (nat (w - 3)) s @ ''...'') \<and>
         int (termwidth plain (take (nat (w - 3)) s @ ''...'')) = w"
proof -
  have tw: "w < int (termwidth plain s)"
    using assms(2) by (simp add: plain_def)
  have "w - 3 < int (length s)"
    using assms(2) by simp
  from plain_wrap_first [OF this] obtain ls where
    "textwrap plain s (w - 3) = take (nat (w - 3)) s # ls"
    by blast
  then have "clamp_string plain t s i ''...'' = Inr (take (nat (w - 3)) s @ ''...'')"
    using clamp_string_wide [OF assms(1) tw, of "''...''"] assms(3) by simp
  moreover have "int (termwidth plain (take (nat (w - 3)) s @ ''...'')) = w"
    using assms(2,3) by (simp add: plain_def)
  ultimately show ?thesis by simp
qed








subsection \<open>The string of a table without rows\<close>

text \<open>
  C10. On a table without rows \<^verbatim>\<open>get_string\<close> returns the empty string and leaves
  the table as it is, whatever its borders, headers and column metadata are and
  whether or not the widths are to be recalculated.
\<close>

theorem get_string_without_rows:
  "length (data t) = 0 \<Longrightarrow> get_string E int_value t recalculate_width = (Inr [], t)"
  by (simp add: get_string_def)

theorem get_string_without_rows_witness:
  "length (data (squares\<lparr>data := [], rows_header := []\<rparr>)) = 0 \<and>
   get_string plain (\<lambda>k. ''n'') (squares\<lparr>data := [], rows_header := []\<rparr>) True
     = (Inr [], squares\<lparr>data := [], rows_header := []\<rparr>)"
  using get_string_without_rows
          [of "squares\<lparr>data := [], rows_header := []\<rparr>" plain "\<lambda>k. ''n''" True]
  by simp

end
